theory Spec2Isabelle
  imports Complex_Main "HOL-Library.Char_ord" "HOL-Library.List_Lexorder" "HOL-Library.Multiset"
begin

section \<open>Live validation of one response (operationValidator)\<close>

subsection \<open>Data model\<close>

text \<open>
  JavaScript strings are modelled as \<^typ>\<open>string\<close>; error codes, header names, status codes
  and HTTP methods are strings in the source and stay strings here. An optional property is an
  \<^typ>\<open>'a option\<close>, a thrown exception is the left summand of a sum type.
\<close>

datatype error = Error string | TypeError string

type_synonym FilePosition = "nat \<times> nat"

record SourceLocation =
  url :: string
  position :: FilePosition

record ErrorMetadata =
  meta_severity :: nat
  docUrl :: string

text \<open>
  \<open>SchemaValidateIssue\<close> and \<open>LiveValidationIssue\<close> are one JavaScript object: the classifier
  casts the raw issue and fills in the remaining properties in place. The record carries the
  properties of both.
\<close>

record LiveValidationIssue =
  code :: string
  severity :: nat
  message :: string
  jsonPathsInPayload :: "string list"
  pathsInPayload :: "string list"
  schemaPath :: string
  source :: SourceLocation
  documentationUrl :: string
  params :: "string list"

record SchemaValidateContext =
  isResponse :: bool
  includeErrors :: "string list option"
  statusCode :: "string option"
  httpMethod :: "string option"

record ValidatePayload =
  payloadHeaders :: "string \<rightharpoonup> string"
  payloadBody :: "string option"

type_synonym Validator = "SchemaValidateContext \<Rightarrow> ValidatePayload \<Rightarrow> LiveValidationIssue list"

record Response =
  rsp_validate :: "Validator option"
  rsp_headerTransform :: "(string \<times> (string \<Rightarrow> string)) list option"
  schema :: "string option"

record Operation =
  x_ms_long_running_operation :: "bool option"
  op_method :: string
  produces :: "string list"
  responses :: "string \<rightharpoonup> Response"
  responsesInfo :: "SourceLocation option"
  specFilePath :: string


record ValidationRequest =
  providerNamespace :: string
  resourceType :: string
  requestMethod :: string
  requestUrl :: string

record OperationContext =
  operationId :: string
  apiVersion :: string
  operationMatch :: "Operation option"
  validationRequest :: "ValidationRequest option"
  oc_position :: "FilePosition option"

text \<open>
  The error-code table, the message formatter, the JSON-path converter and the source-map
  lookup live in other modules; the functions below take them as the fields of an environment.
\<close>

record Env =
  errorCodeToErrorMetadata :: "string \<Rightarrow> ErrorMetadata"
  getValidateErrorMessage :: "string \<Rightarrow> (string \<times> string option) list \<Rightarrow> string"
  jsonPathToPointer :: "string \<Rightarrow> string"
  sourceMapInfoToSourceLocation :: "SourceLocation option \<Rightarrow> SourceLocation"

subsection \<open>String helpers of the JavaScript runtime\<close>

text \<open>
  \<open>toLowerCase\<close> folds the letters A to Z; characters outside ASCII are left as they are.
  \<open>includes_str s sub\<close> is \<open>s.includes(sub)\<close>, \<open>splitFirst sep s\<close> is \<open>s.split(sep)[0]\<close>.
\<close>

definition toLowerChar :: "char \<Rightarrow> char" where
  "toLowerChar c =
     (let n = (of_char c :: nat) in if 65 \<le> n \<and> n \<le> 90 then char_of (n + 32) else c)"

definition toLowerCase :: "string \<Rightarrow> string" where
  "toLowerCase s = map toLowerChar s"

definition startsWith :: "string \<Rightarrow> string \<Rightarrow> bool" where
  "startsWith s p = (take (length p) s = p)"

fun includes_str :: "string \<Rightarrow> string \<Rightarrow> bool" where
  "includes_str [] sub = (sub = [])"
| "includes_str (c # cs) sub = (startsWith (c # cs) sub \<or> includes_str cs sub)"

fun joinWith :: "string \<Rightarrow> string list \<Rightarrow> string" where
  "joinWith sep [] = []"
| "joinWith sep [x] = x"
| "joinWith sep (x # y # ys) = x @ sep @ joinWith sep (y # ys)"

definition splitFirst :: "char \<Rightarrow> string \<Rightarrow> string" where
  "splitFirst sep s = takeWhile (\<lambda>c. c \<noteq> sep) s"


definition isDigit :: "char \<Rightarrow> bool" where
  "isDigit c = (let n = (of_char c :: nat) in 48 \<le> n \<and> n \<le> 57)"

definition digitsValue :: "string \<Rightarrow> nat" where
  "digitsValue ds = foldl (\<lambda>a c. 10 * a + ((of_char c :: nat) - 48)) 0 ds"


subsection \<open>Issue construction\<close>

definition issueFromErrorCode ::
  "Env \<Rightarrow> string \<Rightarrow> (string \<times> string option) list \<Rightarrow> SourceLocation option \<Rightarrow> LiveValidationIssue"
where
  "issueFromErrorCode env c param relatedSchema =
     (let meta = errorCodeToErrorMetadata env c in
      \<lparr> code = c,
        severity = meta_severity meta,
        message = getValidateErrorMessage env c param,
        jsonPathsInPayload = [],
        pathsInPayload = [],
        schemaPath = [],
        source = sourceMapInfoToSourceLocation env relatedSchema,
        documentationUrl = docUrl meta,
        params = [] \<rparr>)"

subsection \<open>Header normalisation\<close>

text \<open>
  \<open>transformMapValue\<close> visits the keys of the transform table and rewrites a value only where
  the data holds a string under that key. Header values are strings, so the array branch of the
  source cannot be taken here.
\<close>

definition transformMapValue ::
  "(string \<rightharpoonup> string) \<Rightarrow> (string \<times> (string \<Rightarrow> string)) list option \<Rightarrow> (string \<rightharpoonup> string)"
where
  "transformMapValue data transforms =
     (case transforms of
        None \<Rightarrow> data
      | Some ts \<Rightarrow>
          fold (\<lambda>(k, transform) d. case d k of None \<Rightarrow> d | Some v \<Rightarrow> d(k \<mapsto> transform v))
               ts data)"

definition transformLiveHeader :: "(string \<times> string) list \<Rightarrow> Response \<Rightarrow> (string \<rightharpoonup> string)" where
  "transformLiveHeader headers it =
     transformMapValue
       (fold (\<lambda>(headerName, v) result. result(toLowerCase headerName \<mapsto> v)) headers Map.empty)
       (rsp_headerTransform it)"

subsection \<open>Content-type gate\<close>

definition contentTypeOf :: "(string \<rightharpoonup> string) \<Rightarrow> bool \<Rightarrow> string option" where
  "contentTypeOf headers isRequest =
     (let fallback = (if isRequest then None else Some ''application/octet-stream'') in
      case headers ''content-type'' of
        None \<Rightarrow> fallback
      | Some v \<Rightarrow> (if splitFirst CHR '';'' v \<noteq> [] then Some (splitFirst CHR '';'' v) else fallback))"

definition validateContentType ::
  "Env \<Rightarrow> string list \<Rightarrow> (string \<rightharpoonup> string) \<Rightarrow> bool \<Rightarrow> LiveValidationIssue list
     \<Rightarrow> LiveValidationIssue list"
where
  "validateContentType env allowedContentTypes headers isRequest result =
     (case contentTypeOf headers isRequest of
        None \<Rightarrow> result
      | Some contentType \<Rightarrow>
          if contentType \<notin> set allowedContentTypes
          then result @
            [issueFromErrorCode env ''INVALID_CONTENT_TYPE''
               [(''contentType'', Some contentType),
                (''supported'', Some (joinWith '', '' allowedContentTypes))]
               None]
          else result)"

subsection \<open>Long-running-operation rules\<close>

definition absentOrEmpty :: "string option \<Rightarrow> bool" where
  "absentOrEmpty v = (v = None \<or> v = Some [])"

definition validateLroHeader ::
  "Env \<Rightarrow> Operation \<Rightarrow> (string \<rightharpoonup> string) \<Rightarrow> LiveValidationIssue list \<Rightarrow> LiveValidationIssue list"
where
  "validateLroHeader env operation headers result =
     (if absentOrEmpty (headers ''location'') \<and>
         absentOrEmpty (headers ''azure-AsyncOperation'') \<and>
         absentOrEmpty (headers ''azure-asyncoperation'')
      then result @
        [issueFromErrorCode env ''LRO_RESPONSE_HEADER''
           [(''header'', Some ''location or azure-AsyncOperation'')]
           (responsesInfo operation)]
      else result)"

definition validateLroOperation ::
  "Env \<Rightarrow> Operation \<Rightarrow> string \<Rightarrow> (string \<rightharpoonup> string) \<Rightarrow> LiveValidationIssue list
     \<Rightarrow> LiveValidationIssue list"
where
  "validateLroOperation env operation sc headers result =
     (if x_ms_long_running_operation operation = Some True then
        if op_method operation = ''patch'' \<or> op_method operation = ''post'' then
          if sc \<noteq> ''202'' \<and> sc \<noteq> ''201''
          then result @
            [issueFromErrorCode env ''LRO_RESPONSE_CODE'' [(''statusCode'', Some sc)]
               (responsesInfo operation)]
          else validateLroHeader env operation headers result
        else if op_method operation = ''delete'' then
          (let result1 =
                 (if sc \<noteq> ''202'' \<and> sc \<noteq> ''204''
                  then result @
                    [issueFromErrorCode env ''LRO_RESPONSE_CODE'' [(''statusCode'', Some sc)]
                       (responsesInfo operation)]
                  else result)
           in if sc = ''202'' then validateLroHeader env operation headers result1 else result1)
        else if op_method operation = ''put'' then
          if sc = ''202'' \<or> sc = ''201'' then validateLroHeader env operation headers result
          else if sc \<noteq> ''200'' then
            result @
              [issueFromErrorCode env ''LRO_RESPONSE_CODE'' [(''statusCode'', Some sc)]
                 (responsesInfo operation)]
          else result
        else result
      else result)"

subsection \<open>Issue classifier\<close>

text \<open>
  The callback of \<open>jsonPathsInPayload.map\<close> reads and writes the issue it is mapping over: the
  code, severity and message of the issue and the flag \<open>skipIssue\<close> are the state threaded
  through the paths, left to right. \<open>mapPath\<close> is one call of the callback; it returns the
  rewritten JSON path, its JSON pointer and the new state.
\<close>

definition params0 :: "LiveValidationIssue \<Rightarrow> string option" where
  "params0 issue = (case params issue of [] \<Rightarrow> None | p # _ \<Rightarrow> Some p)"

definition mapPath ::
  "Env \<Rightarrow> Operation \<Rightarrow> SchemaValidateContext \<Rightarrow> string \<Rightarrow> LiveValidationIssue \<times> bool
     \<Rightarrow> (string \<times> string) \<times> (LiveValidationIssue \<times> bool)"
where
  "mapPath env operation ctx path st =
     (let issue = fst st;
          skipIssue = snd st;
          isMissingRequiredProperty = (code issue = ''OBJECT_MISSING_REQUIRED_PROPERTY'');
          isBodyIssue = startsWith path ''.body''
      in
      if isBodyIssue \<and> (length path > 5 \<or> \<not> isMissingRequiredProperty) then
        (let path' = ''$'' @ drop 5 path in ((path', jsonPathToPointer env path'), st))
      else if isMissingRequiredProperty then
        (let st1 =
               (if isResponse ctx then
                  if isBodyIssue then
                    (issue\<lparr>code := ''INVALID_RESPONSE_BODY''\<rparr>,
                     if x_ms_long_running_operation operation = Some True \<and>
                        (statusCode ctx = Some ''201'' \<or> statusCode ctx = Some ''202'')
                     then True else skipIssue)
                  else if startsWith path ''.headers'' then
                    (issue\<lparr>code := ''INVALID_RESPONSE_HEADER''\<rparr>, skipIssue)
                  else st
                else (issue\<lparr>code := ''MISSING_REQUIRED_PARAMETER''\<rparr>, skipIssue));
             issue1 = fst st1;
             issue2 = issue1
               \<lparr>severity := meta_severity (errorCodeToErrorMetadata env (code issue1)),
                message := getValidateErrorMessage env (code issue1)
                             [(''missingProperty'', params0 issue1)]\<rparr>
         in ((path, jsonPathToPointer env path), (issue2, snd st1)))
      else ((path, jsonPathToPointer env path), st))"

fun mapPaths ::
  "Env \<Rightarrow> Operation \<Rightarrow> SchemaValidateContext \<Rightarrow> string list \<Rightarrow> LiveValidationIssue \<times> bool
     \<Rightarrow> (string \<times> string) list \<times> (LiveValidationIssue \<times> bool)"
where
  "mapPaths env operation ctx [] st = ([], st)"
| "mapPaths env operation ctx (path # paths) st =
     (let r = mapPath env operation ctx path st;
          rs = mapPaths env operation ctx paths (snd r)
      in (fst r # fst rs, snd rs))"

text \<open>
  One iteration of the loop over the raw issues. \<open>attachMetadata\<close> is its first part: the
  metadata of the raw code and the default of the source location.
\<close>

definition attachMetadata :: "Env \<Rightarrow> Operation \<Rightarrow> LiveValidationIssue \<Rightarrow> LiveValidationIssue" where
  "attachMetadata env operation i =
     (let meta = errorCodeToErrorMetadata env (code i);
          issue = i\<lparr>documentationUrl := docUrl meta, severity := meta_severity meta\<rparr>
      in if url (source issue) = []
         then issue\<lparr>source := (source issue)\<lparr>url := specFilePath operation\<rparr>\<rparr>
         else issue)"

text \<open>The whole iteration: the enriched issue and \<open>skipIssue\<close>.\<close>

definition classifyIssue ::
  "Env \<Rightarrow> Operation \<Rightarrow> SchemaValidateContext \<Rightarrow> LiveValidationIssue \<Rightarrow> LiveValidationIssue \<times> bool"
where
  "classifyIssue env operation ctx i =
     (let issue = attachMetadata env operation i;
          rs = mapPaths env operation ctx (jsonPathsInPayload issue) (issue, False);
          issue1 = fst (snd rs)
      in (issue1\<lparr>jsonPathsInPayload := map fst (fst rs), pathsInPayload := map snd (fst rs)\<rparr>,
          snd (snd rs)))"

fun schemaValidateIssueToLiveValidationIssue ::
  "Env \<Rightarrow> LiveValidationIssue list \<Rightarrow> Operation \<Rightarrow> SchemaValidateContext
     \<Rightarrow> LiveValidationIssue list \<Rightarrow> LiveValidationIssue list"
where
  "schemaValidateIssueToLiveValidationIssue env [] operation ctx output = output"
| "schemaValidateIssueToLiveValidationIssue env (i # input) operation ctx output =
     (let r = classifyIssue env operation ctx i
      in schemaValidateIssueToLiveValidationIssue env input operation ctx
           (if \<not> snd r then output @ [fst r] else output))"

subsection \<open>Response validation\<close>





section \<open>Traffic validation and coverage (trafficValidator)\<close>

subsection \<open>Data model\<close>

record RuntimeException =
  rt_code :: string
  rt_message :: string
  rt_spec :: "string list option"

record LiveValidationIssueWithSource = LiveValidationIssue +
  issueSource :: "string option"

record LiveValidationResult =
  isSuccessful :: "bool option"
  vr_errors :: "LiveValidationIssue list"
  vr_runtimeException :: "RuntimeException option"
  vr_operationInfo :: "OperationContext option"

record RequestResponseLiveValidationResult =
  requestValidationResult :: LiveValidationResult
  responseValidationResult :: LiveValidationResult
  runtimeException :: "RuntimeException option"

record TrafficValidationIssue =
  payloadFilePath :: "string option"
  payloadFilePathPosition :: "FilePosition option"
  tvi_specFilePath :: "string option"
  errors :: "LiveValidationIssueWithSource list option"
  runtimeExceptions :: "RuntimeException option list option"
  operationInfo :: "OperationContext option"

record OperationMeta =
  om_operationId :: string

record unCoveredOperationsFormatInner = OperationMeta +
  key :: string

record unCoveredOperationsFormat =
  operationIdList :: "unCoveredOperationsFormatInner list"

record OperationCoverageInfo =
  spec :: string
  cov_apiVersion :: string
  coveredOperations :: nat
  coveredOperationsList :: "OperationMeta list"
  cov_validationFailOperations :: nat
  unCoveredOperations :: int
  unCoveredOperationsList :: "unCoveredOperationsFormatInner list"
  unCoveredOperationsListGen :: "unCoveredOperationsFormat list"
  totalOperations :: nat
  coverageRate :: rat

text \<open>
  A thrown JavaScript value, as the \<open>catch\<close> block reads it: its \<open>message\<close> and its \<open>Stack\<close>
  property, each possibly undefined.
\<close>

record Thrown =
  thrown_message :: "string option"
  thrown_Stack :: "string option"

text \<open>
  What the collaborators return for one traffic file (\<open>require\<close>, the live validator, the
  operation search, the position lookup in the payload file): either one of them throws, or
  the values the loop body reads from them.
\<close>

record SampleData =
  validationResult :: RequestResponseLiveValidationResult
  liveRequestUrl :: string
  opInfo :: OperationContext
  liveRequestPosition :: "FilePosition option"
  liveResponsePosition :: "FilePosition option"

record Sample =
  trafficFile :: string
  sampleData :: "Thrown + SampleData"

text \<open>
  The parts of the run that come from other modules or from the platform: the constant
  \<open>ErrorCodeConstants.RUNTIME_ERROR\<close>, \<open>getApiVersionFromFilePath\<close>, the string comparison
  \<open>localeCompare\<close>, and the loading of a specification file (with the search for its
  \<open>operationId\<close> keys) followed by the position lookup of an operation identifier in it; either
  may throw.
\<close>

record TVEnv =
  RUNTIME_ERROR :: string
  getApiVersionFromFilePath :: "string \<Rightarrow> string"
  localeCompare :: "string \<Rightarrow> string \<Rightarrow> int"
  loadSpec :: "string \<Rightarrow> Thrown + (string \<Rightarrow> Thrown + FilePosition option)"

text \<open>
  The fields of a \<open>TrafficValidator\<close> that \<open>validate\<close> writes. \<open>operationSpecMapper\<close> is only read
  by \<open>validate\<close> and is passed separately, as the list of its entries in insertion order.
\<close>

record TVState =
  trafficValidationResult :: "TrafficValidationIssue list"
  trafficOperation :: "string \<rightharpoonup> string list"
  validationFailOperations :: "string \<rightharpoonup> string list"
  coverageData :: "string \<rightharpoonup> rat"
  operationCoverageResult :: "OperationCoverageInfo list"
  operationUndefinedResult :: nat

type_synonym SpecMapper = "(string \<times> string list) list"

definition initialState :: TVState where
  "initialState =
     \<lparr> trafficValidationResult = [], trafficOperation = Map.empty,
       validationFailOperations = Map.empty, coverageData = Map.empty,
       operationCoverageResult = [], operationUndefinedResult = 0 \<rparr>"

subsection \<open>Locating the specification files of a sample\<close>

definition mapperGet :: "SpecMapper \<Rightarrow> string \<Rightarrow> string list" where
  "mapperGet mapper k = (case map_of mapper k of None \<Rightarrow> [] | Some v \<Rightarrow> v)"

definition findSwaggerByOperationInfo :: "SpecMapper \<Rightarrow> OperationContext \<Rightarrow> string list" where
  "findSwaggerByOperationInfo mapper oi =
     (case validationRequest oi of
        None \<Rightarrow> []
      | Some vreq \<Rightarrow>
          filter (\<lambda>k.
              includes_str (toLowerCase k) (providerNamespace vreq) \<and>
              (includes_str k (apiVersion oi) \<or> includes_str (toLowerCase k) (apiVersion oi)) \<and>
              operationId oi \<in> set (mapperGet mapper k))
            (map fst mapper))"

definition findSwaggerByOperationId :: "SpecMapper \<Rightarrow> OperationContext \<Rightarrow> string list" where
  "findSwaggerByOperationId mapper oi =
     filter (\<lambda>k.
         operationId oi \<in> set (mapperGet mapper k) \<and>
         (includes_str k (apiVersion oi) \<or> includes_str (toLowerCase k) (apiVersion oi)))
       (map fst mapper)"

subsection \<open>The loop over the traffic files\<close>

definition addOperation :: "(string \<rightharpoonup> string list) \<Rightarrow> string \<Rightarrow> string \<Rightarrow> (string \<rightharpoonup> string list)" where
  "addOperation m swaggerFile opId =
     (let m1 = (if m swaggerFile = None then m(swaggerFile \<mapsto> []) else m) in
      case m1 swaggerFile of
        None \<Rightarrow> m1
      | Some ops \<Rightarrow> if opId \<notin> set ops then m1(swaggerFile \<mapsto> ops @ [opId]) else m1)"

definition failing :: "RequestResponseLiveValidationResult \<Rightarrow> bool" where
  "failing vr =
     (isSuccessful (requestValidationResult vr) = Some False \<or>
      isSuccessful (requestValidationResult vr) = None \<or>
      isSuccessful (responseValidationResult vr) = Some False \<or>
      isSuccessful (responseValidationResult vr) = None \<or>
      runtimeException vr \<noteq> None)"

definition withSource :: "string \<Rightarrow> LiveValidationIssue \<Rightarrow> LiveValidationIssueWithSource" where
  "withSource src e = LiveValidationIssue.extend e (LiveValidationIssueWithSource.fields (Some src))"

definition errorsOf :: "string \<Rightarrow> LiveValidationResult \<Rightarrow> LiveValidationIssueWithSource list" where
  "errorsOf src r =
     (if isSuccessful r = None then []
      else if isSuccessful r = Some False then map (withSource src) (vr_errors r)
      else [])"

definition exceptionsOf :: "LiveValidationResult \<Rightarrow> RuntimeException option list" where
  "exceptionsOf r = (if isSuccessful r = None then [vr_runtimeException r] else [])"

definition undefinedOperationId :: Thrown where
  "undefinedOperationId =
     \<lparr> thrown_message = Some ''Cannot read properties of undefined (reading operationId)'',
       thrown_Stack = None \<rparr>"

text \<open>
  The loop over the specification files of one sample. The state is returned together with the
  exception that ended the loop, if any: the writes made before a throw stay.
  \<open>operationInfo\<close> is the variable of that name; \<open>Object.assign\<close> writes the position into it.
\<close>

fun forSwaggerFiles ::
  "TVEnv \<Rightarrow> string \<Rightarrow> SampleData \<Rightarrow> FilePosition option \<Rightarrow> string list
     \<Rightarrow> OperationContext option \<Rightarrow> TVState \<Rightarrow> TVState \<times> Thrown option"
where
  "forSwaggerFiles tenv file d pos [] oi st = (st, None)"
| "forSwaggerFiles tenv file d pos (swaggerFile # rest) oi st =
     (let opId = operationId (opInfo d);
          vr = validationResult d;
          st1 = st\<lparr>trafficOperation := addOperation (trafficOperation st) swaggerFile opId\<rparr>
      in
      if failing vr then
        (let st2 = st1\<lparr>validationFailOperations :=
                         addOperation (validationFailOperations st1) swaggerFile opId\<rparr>
         in case loadSpec tenv swaggerFile of
              Inl t \<Rightarrow> (st2, Some t)
            | Inr positionOf \<Rightarrow>
                (case oi of
                   None \<Rightarrow> (st2, Some undefinedOperationId)
                 | Some info \<Rightarrow>
                     (case positionOf (operationId info) of
                        Inl t \<Rightarrow> (st2, Some t)
                      | Inr operationIdPosition \<Rightarrow>
                          (let info1 = info\<lparr>oc_position := operationIdPosition\<rparr>;
                               st3 = st2\<lparr>trafficValidationResult := trafficValidationResult st2 @
                                 [\<lparr> payloadFilePath = Some file,
                                    payloadFilePathPosition = pos,
                                    tvi_specFilePath = Some swaggerFile,
                                    errors = Some
                                      (errorsOf ''request'' (requestValidationResult vr) @
                                       errorsOf ''response'' (responseValidationResult vr)),
                                    runtimeExceptions = Some
                                      (exceptionsOf (requestValidationResult vr) @
                                       exceptionsOf (responseValidationResult vr)),
                                    operationInfo = Some info1 \<rparr>]\<rparr>
                           in forSwaggerFiles tenv file d pos rest (Some info1) st3))))
      else forSwaggerFiles tenv file d pos rest oi st1)"

text \<open>
  The specification files of a sample: resource-manager requests (the URL contains
  \<open>provider\<close>) are located by provider namespace, API version and operation identifier, the
  others by operation identifier and API version.
\<close>

definition swaggerFilesOf :: "SpecMapper \<Rightarrow> SampleData \<Rightarrow> string list" where
  "swaggerFilesOf mapper d =
     (if includes_str (liveRequestUrl d) ''provider''
      then findSwaggerByOperationInfo mapper (opInfo d)
      else findSwaggerByOperationId mapper (opInfo d))"

text \<open>The body of the loop over the traffic files, for one file.\<close>

definition validateSample :: "TVEnv \<Rightarrow> SpecMapper \<Rightarrow> Sample \<Rightarrow> TVState \<Rightarrow> TVState \<times> Thrown option" where
  "validateSample tenv mapper smp st =
     (case sampleData smp of
        Inl t \<Rightarrow> (st, Some t)
      | Inr d \<Rightarrow>
          (let vr = validationResult d;
               pos = (if isSuccessful (requestValidationResult vr) = Some True
                      then liveResponsePosition d else liveRequestPosition d);
               swaggerFiles = swaggerFilesOf mapper d
           in if swaggerFiles \<noteq> []
              then forSwaggerFiles tenv (trafficFile smp) d pos swaggerFiles
                     (vr_operationInfo (requestValidationResult vr)) st
              else (st\<lparr>operationUndefinedResult := operationUndefinedResult st + 1\<rparr>, None)))"

text \<open>
  The \<open>for\<close> loop inside the \<open>try\<close> block: it ends at the first throw, and reports the file
  it was processing (the variable \<open>payloadFilePath\<close>).
\<close>

fun forTrafficFiles ::
  "TVEnv \<Rightarrow> SpecMapper \<Rightarrow> Sample list \<Rightarrow> TVState \<Rightarrow> TVState \<times> (string \<times> Thrown) option"
where
  "forTrafficFiles tenv mapper [] st = (st, None)"
| "forTrafficFiles tenv mapper (smp # rest) st =
     (case validateSample tenv mapper smp st of
        (st1, Some t) \<Rightarrow> (st1, Some (trafficFile smp, t))
      | (st1, None) \<Rightarrow> forTrafficFiles tenv mapper rest st1)"

definition orUndefined :: "string option \<Rightarrow> string" where
  "orUndefined v = (case v of None \<Rightarrow> ''undefined'' | Some s \<Rightarrow> s)"

definition runLevelException :: "TVEnv \<Rightarrow> string \<Rightarrow> Thrown \<Rightarrow> TrafficValidationIssue" where
  "runLevelException tenv file err =
     \<lparr> payloadFilePath = Some file,
       payloadFilePathPosition = None,
       tvi_specFilePath = None,
       errors = None,
       runtimeExceptions = Some
         [Some \<lparr> rt_code = RUNTIME_ERROR tenv,
                 rt_message = ''Detail error message:'' @ orUndefined (thrown_message err) @
                              ''. ErrorStack:'' @ orUndefined (thrown_Stack err),
                 rt_spec = None \<rparr>],
       operationInfo = None \<rparr>"

text \<open>The \<open>try\<close> statement with its \<open>catch\<close> block.\<close>

definition tryTrafficFiles :: "TVEnv \<Rightarrow> SpecMapper \<Rightarrow> Sample list \<Rightarrow> TVState \<Rightarrow> TVState" where
  "tryTrafficFiles tenv mapper samples st =
     (case forTrafficFiles tenv mapper samples st of
        (st1, None) \<Rightarrow> st1
      | (st1, Some (file, err)) \<Rightarrow>
          st1\<lparr>trafficValidationResult :=
                 trafficValidationResult st1 @ [runLevelException tenv file err]\<rparr>)"

subsection \<open>The coverage report\<close>

text \<open>
  \<open>unValidatedOperations.splice(unValidatedOperations.indexOf(element), 1)\<close>: the first
  occurrence is removed; when there is none, \<open>indexOf\<close> is \<open>-1\<close> and \<open>splice\<close> removes the last
  element.
\<close>

definition spliceIndexOf :: "string \<Rightarrow> string list \<Rightarrow> string list" where
  "spliceIndexOf element xs = (if element \<in> set xs then remove1 element xs else butlast xs)"

definition unValidatedOperations :: "string list \<Rightarrow> string list \<Rightarrow> string list" where
  "unValidatedOperations value validatedOperations = fold spliceIndexOf validatedOperations value"

definition unCoveredItem :: "string \<Rightarrow> unCoveredOperationsFormatInner" where
  "unCoveredItem element = \<lparr> om_operationId = element, key = splitFirst CHR ''_'' element \<rparr>"

text \<open>
  The \<open>reduce\<close> that groups the uncovered operations builds an object keyed by group key. The
  object is the list of its properties in creation order; \<open>Object.values\<close> enumerates the
  properties whose name is an array index first, in ascending numeric order, then the others in
  creation order. Property names inherited from \<open>Object.prototype\<close> are not modelled.
\<close>

definition groupInsert ::
  "unCoveredOperationsFormatInner \<Rightarrow> (string \<times> unCoveredOperationsFormatInner list) list
     \<Rightarrow> (string \<times> unCoveredOperationsFormatInner list) list"
where
  "groupInsert item res =
     (if key item \<in> set (map fst res)
      then map (\<lambda>(k, g). if k = key item then (k, g @ [item]) else (k, g)) res
      else res @ [(key item, [item])])"

definition isArrayIndex :: "string \<Rightarrow> bool" where
  "isArrayIndex s =
     (s \<noteq> [] \<and> list_all isDigit s \<and> (s = ''0'' \<or> hd s \<noteq> CHR ''0'') \<and>
      digitsValue s < 4294967295)"

definition objectValues :: "(string \<times> 'a) list \<Rightarrow> 'a list" where
  "objectValues res =
     map snd (sort_key (\<lambda>(k, g). digitsValue k) (filter (\<lambda>(k, g). isArrayIndex k) res) @
              filter (\<lambda>(k, g). \<not> isArrayIndex k) res)"

definition unCoveredBatches :: "unCoveredOperationsFormatInner list \<Rightarrow> unCoveredOperationsFormat list" where
  "unCoveredBatches items =
     map (\<lambda>element. \<lparr> operationIdList = element \<rparr>) (objectValues (fold groupInsert items []))"

text \<open>
  The bubble sort of the batches, with its two index loops. \<open>batchKey\<close> is
  \<open>operationIdList[0].key\<close>; it is read only on batches built by \<open>unCoveredBatches\<close>, which
  are never empty.
\<close>

definition batchKey :: "unCoveredOperationsFormat \<Rightarrow> string" where
  "batchKey b = key (hd (operationIdList b))"

definition bubbleStep ::
  "(string \<Rightarrow> string \<Rightarrow> int) \<Rightarrow> nat \<Rightarrow> unCoveredOperationsFormat list \<Rightarrow> unCoveredOperationsFormat list"
where
  "bubbleStep cmp j xs =
     (if cmp (batchKey (xs ! j)) (batchKey (xs ! (j + 1))) > 0
      then xs[j := xs ! (j + 1), j + 1 := xs ! j]
      else xs)"

definition bubblePass ::
  "(string \<Rightarrow> string \<Rightarrow> int) \<Rightarrow> nat \<Rightarrow> unCoveredOperationsFormat list \<Rightarrow> unCoveredOperationsFormat list"
where
  "bubblePass cmp i xs = fold (bubbleStep cmp) [0 ..< length xs - 1 - i] xs"

definition bubbleSort ::
  "(string \<Rightarrow> string \<Rightarrow> int) \<Rightarrow> unCoveredOperationsFormat list \<Rightarrow> unCoveredOperationsFormat list"
where
  "bubbleSort cmp xs = fold (bubblePass cmp) [0 ..< length xs - 1] xs"

text \<open>
  \<open>Array.prototype.sort\<close> with the comparison function of the source (\<open><\<close> and \<open>>\<close> on the
  operation identifiers) is a stable sort by operation identifier, here \<open>sort_key\<close> on
  strings ordered lexicographically by character code.
\<close>

definition sortByOperationId :: "('a OperationMeta_scheme) list \<Rightarrow> ('a OperationMeta_scheme) list" where
  "sortByOperationId xs = sort_key om_operationId xs"

text \<open>
  The variables the callback of \<open>operationSpecMapper.forEach\<close> sets in its three branches:
  no sample matched the specification; the specification declares operations; it declares none.
\<close>

record RollupVars =
  isMatch :: bool
  v_coveredOperations :: nat
  v_coverageRate :: rat
  v_coveredOperationsList :: "OperationMeta list"
  v_unCoveredOperationsList :: "unCoveredOperationsFormatInner list"
  v_unCoveredOperationsListFormat :: "unCoveredOperationsFormat list"

definition rollupVars :: "string list \<Rightarrow> string list option \<Rightarrow> RollupVars" where
  "rollupVars value traffic =
     (case traffic of
        None \<Rightarrow>
          \<lparr> isMatch = False, v_coveredOperations = 0, v_coverageRate = 0,
            v_coveredOperationsList = [], v_unCoveredOperationsList = [],
            v_unCoveredOperationsListFormat = [] \<rparr>
      | Some validatedOperations \<Rightarrow>
          if value \<noteq> [] then
            (let unCovered = map unCoveredItem (unValidatedOperations value validatedOperations)
             in \<lparr> isMatch = True,
                  v_coveredOperations = length validatedOperations,
                  v_coverageRate = of_nat (length validatedOperations) / of_nat (length value),
                  v_coveredOperationsList =
                    map (\<lambda>element. \<lparr> om_operationId = element \<rparr>) validatedOperations,
                  v_unCoveredOperationsList = unCovered,
                  v_unCoveredOperationsListFormat = unCoveredBatches unCovered \<rparr>)
          else
            \<lparr> isMatch = False, v_coveredOperations = 0, v_coverageRate = 0,
              v_coveredOperationsList = [], v_unCoveredOperationsList = [],
              v_unCoveredOperationsListFormat = [] \<rparr>)"

text \<open>The callback of \<open>operationSpecMapper.forEach\<close>, for one specification file.\<close>

definition rollupSpec :: "TVEnv \<Rightarrow> string \<Rightarrow> string list \<Rightarrow> TVState \<Rightarrow> TVState" where
  "rollupSpec tenv k value st =
     (let vars = rollupVars value (trafficOperation st k);
          st1 = st\<lparr>coverageData := (coverageData st)(k \<mapsto> v_coverageRate vars)\<rparr>;
          failCount = (case validationFailOperations st1 k of None \<Rightarrow> 0 | Some ops \<Rightarrow> length ops);
          sortedUnCoveredOperationsList = sortByOperationId (v_unCoveredOperationsList vars);
          sortedCoveredOperationsList = sortByOperationId (v_coveredOperationsList vars);
          sortedFormat = bubbleSort (localeCompare tenv) (v_unCoveredOperationsListFormat vars)
      in if isMatch vars
         then st1\<lparr>operationCoverageResult := operationCoverageResult st1 @
                [\<lparr> spec = k,
                   cov_apiVersion = getApiVersionFromFilePath tenv k,
                   coveredOperations = v_coveredOperations vars,
                   coveredOperationsList = sortedCoveredOperationsList,
                   cov_validationFailOperations = failCount,
                   unCoveredOperations = int (length value) - int (v_coveredOperations vars),
                   unCoveredOperationsList = sortedUnCoveredOperationsList,
                   unCoveredOperationsListGen = sortedFormat,
                   totalOperations = length value,
                   coverageRate = v_coverageRate vars \<rparr>]\<rparr>
         else st1)"

definition rollup :: "TVEnv \<Rightarrow> SpecMapper \<Rightarrow> TVState \<Rightarrow> TVState" where
  "rollup tenv mapper st = fold (\<lambda>(k, value) s. rollupSpec tenv k value s) mapper st"

text \<open>
  \<open>validate\<close>: the guarded loop, then the report. The value the method returns is the field
  \<open>trafficValidationResult\<close> of the final state.
\<close>

definition validate :: "TVEnv \<Rightarrow> SpecMapper \<Rightarrow> Sample list \<Rightarrow> TVState \<Rightarrow> TVState" where
  "validate tenv mapper samples st = rollup tenv mapper (tryTrafficFiles tenv mapper samples st)"

section \<open>The rules of the specification, and sample data\<close>

subsection \<open>The long-running-operation table, as the specification words it\<close>

text \<open>
  The table of the specification: per method, the valid status codes and the status codes on
  which the polling header is checked. \<open>lroIssueCodes\<close> reads the table: the codes of the issues
  a long-running operation of method \<open>m\<close> gets for the status code \<open>sc\<close> and the normalised
  headers. \<open>lroMessageParams\<close> are the message parameters the two issues carry.
\<close>

definition lroValidCodes :: "string \<Rightarrow> string list option" where
  "lroValidCodes m =
     (if m = ''patch'' \<or> m = ''post'' then Some [''202'', ''201'']
      else if m = ''delete'' then Some [''202'', ''204'']
      else if m = ''put'' then Some [''200'', ''201'', ''202'']
      else None)"

definition lroHeaderCodes :: "string \<Rightarrow> string list" where
  "lroHeaderCodes m =
     (if m = ''patch'' \<or> m = ''post'' then [''202'', ''201'']
      else if m = ''delete'' then [''202'']
      else if m = ''put'' then [''201'', ''202'']
      else [])"

definition pollingHeaderGiven :: "(string \<rightharpoonup> string) \<Rightarrow> bool" where
  "pollingHeaderGiven headers =
     list_ex (\<lambda>name. case headers name of None \<Rightarrow> False | Some v \<Rightarrow> v \<noteq> [])
       [''location'', ''azure-AsyncOperation'', ''azure-asyncoperation'']"

definition lroIssueCodes :: "string \<Rightarrow> string \<Rightarrow> (string \<rightharpoonup> string) \<Rightarrow> string list" where
  "lroIssueCodes m sc headers =
     (case lroValidCodes m of
        None \<Rightarrow> []
      | Some valid \<Rightarrow>
          if sc \<notin> set valid then [''LRO_RESPONSE_CODE'']
          else if sc \<in> set (lroHeaderCodes m) \<and> \<not> pollingHeaderGiven headers
          then [''LRO_RESPONSE_HEADER'']
          else [])"

definition lroMessageParams :: "string \<Rightarrow> string \<Rightarrow> (string \<times> string option) list" where
  "lroMessageParams sc c =
     (if c = ''LRO_RESPONSE_CODE'' then [(''statusCode'', Some sc)]
      else [(''header'', Some ''location or azure-AsyncOperation'')])"

definition lroHeaderIssue :: "Env \<Rightarrow> Operation \<Rightarrow> LiveValidationIssue" where
  "lroHeaderIssue env operation =
     issueFromErrorCode env ''LRO_RESPONSE_HEADER''
       [(''header'', Some ''location or azure-AsyncOperation'')] (responsesInfo operation)"

definition presentNonEmpty :: "(string \<rightharpoonup> string) \<Rightarrow> string \<Rightarrow> bool" where
  "presentNonEmpty headers name = (case headers name of None \<Rightarrow> False | Some v \<Rightarrow> v \<noteq> [])"

subsection \<open>Sample data\<close>

definition env0 :: Env where
  "env0 =
     \<lparr> errorCodeToErrorMetadata = (\<lambda>c. \<lparr> meta_severity = length c, docUrl = ''doc/'' @ c \<rparr>),
       getValidateErrorMessage =
         (\<lambda>c ps. c @ '':'' @ concat (map (\<lambda>(k, v). k @ ''='' @ orUndefined v) ps)),
       jsonPathToPointer = (\<lambda>p. map (\<lambda>c. if c = CHR ''.'' then CHR ''/'' else c) (drop 1 p)),
       sourceMapInfoToSourceLocation =
         (\<lambda>i. case i of None \<Rightarrow> \<lparr> url = [], position = (0, 0) \<rparr> | Some l \<Rightarrow> l) \<rparr>"

definition rsp0 :: Response where
  "rsp0 = \<lparr> rsp_validate = Some (\<lambda>ctx p. []), rsp_headerTransform = None, schema = Some ''{}'' \<rparr>"

definition op0 :: "string \<Rightarrow> Operation" where
  "op0 m =
     \<lparr> x_ms_long_running_operation = Some True,
       op_method = m, produces = [''application/json''],
       responses = [''200'' \<mapsto> rsp0, ''default'' \<mapsto> rsp0\<lparr>schema := None\<rparr>],
       responsesInfo = None, specFilePath = ''spec.json'' \<rparr>"

subsection \<open>Reclassification, as the amended rule words it\<close>

text \<open>
  A payload path lies strictly below the body root when it starts with \<open>.body\<close> and goes on.
  \<open>reclassified env i c r\<close>: the issue \<open>r\<close> has the code \<open>c\<close>, the severity of \<open>c\<close>, and the
  message of \<open>c\<close> with the first parameter of the raw issue \<open>i\<close> as the missing property.
  \<open>bodyToRoot\<close> replaces the prefix \<open>.body\<close> of a path by \<open>$\<close>. \<open>onlyPathsRewritten\<close>: the
  issue \<open>r\<close> is the raw issue \<open>i\<close> with the metadata of its own code, the default of the source
  location, every path rewritten by \<open>bodyToRoot\<close>, and the JSON pointers of the rewritten paths;
  code, message and parameters are those of \<open>i\<close>.
\<close>

definition belowBodyRoot :: "string \<Rightarrow> bool" where
  "belowBodyRoot p = (startsWith p ''.body'' \<and> length p > 5)"

definition reclassified :: "Env \<Rightarrow> LiveValidationIssue \<Rightarrow> string \<Rightarrow> LiveValidationIssue \<Rightarrow> bool" where
  "reclassified env i c r =
     (code r = c \<and> severity r = meta_severity (errorCodeToErrorMetadata env c) \<and>
      message r = getValidateErrorMessage env c [(''missingProperty'', params0 i)])"

definition bodyToRoot :: "string \<Rightarrow> string" where
  "bodyToRoot q = ''$'' @ drop 5 q"

definition onlyPathsRewritten ::
  "Env \<Rightarrow> Operation \<Rightarrow> LiveValidationIssue \<Rightarrow> LiveValidationIssue \<Rightarrow> bool"
where
  "onlyPathsRewritten env operation i r =
     (code r = code i \<and> message r = message i \<and> params r = params i \<and>
      schemaPath r = schemaPath i \<and>
      severity r = meta_severity (errorCodeToErrorMetadata env (code i)) \<and>
      documentationUrl r = docUrl (errorCodeToErrorMetadata env (code i)) \<and>
      source r = (if url (source i) = [] then (source i)\<lparr>url := specFilePath operation\<rparr>
                  else source i) \<and>
      jsonPathsInPayload r = map bodyToRoot (jsonPathsInPayload i) \<and>
      pathsInPayload r = map (\<lambda>q. jsonPathToPointer env (bodyToRoot q)) (jsonPathsInPayload i))"

definition recode :: "Env \<Rightarrow> string \<Rightarrow> LiveValidationIssue \<Rightarrow> LiveValidationIssue" where
  "recode env c i = i\<lparr>code := c, severity := meta_severity (errorCodeToErrorMetadata env c),
                       message := getValidateErrorMessage env c [(''missingProperty'', params0 i)]\<rparr>"

subsection \<open>Sample issues and contexts\<close>

definition rawIssue :: "string \<Rightarrow> string list \<Rightarrow> LiveValidationIssue" where
  "rawIssue c paths =
     \<lparr> code = c, severity = 0, message = ''raw'', jsonPathsInPayload = paths, pathsInPayload = [],
       schemaPath = ''#/required'', source = \<lparr> url = [], position = (1, 1) \<rparr>,
       documentationUrl = [], params = [''name''] \<rparr>"

definition requestCtx :: SchemaValidateContext where
  "requestCtx = \<lparr> isResponse = False, includeErrors = None, statusCode = None, httpMethod = None \<rparr>"

definition responseCtx :: "string \<Rightarrow> SchemaValidateContext" where
  "responseCtx sc = \<lparr> isResponse = True, includeErrors = None, statusCode = Some sc, httpMethod = Some ''put'' \<rparr>"

definition omrp :: "string list \<Rightarrow> LiveValidationIssue" where
  "omrp paths = rawIssue ''OBJECT_MISSING_REQUIRED_PROPERTY'' paths"



subsection \<open>Predicates on the state and on the report\<close>


definition specInv :: "SpecMapper \<Rightarrow> TVState \<Rightarrow> bool" where
  "specInv mapper st =
     (\<forall>k ops. trafficOperation st k = Some ops \<longrightarrow>
        distinct ops \<and> set ops \<subseteq> set (mapperGet mapper k))"

definition coverageOk :: "OperationCoverageInfo \<Rightarrow> bool" where
  "coverageOk r =
     (0 < totalOperations r \<and> coveredOperations r \<le> totalOperations r \<and>
      coverageRate r = of_nat (coveredOperations r) / of_nat (totalOperations r))"









subsection \<open>Sample corpus\<close>

definition codeUnitCompare :: "string \<Rightarrow> string \<Rightarrow> int" where
  "codeUnitCompare a b = (if a < b then - 1 else if a = b then 0 else 1)"


definition tenv0 :: TVEnv where
  "tenv0 =
     \<lparr> RUNTIME_ERROR = ''RUNTIME_ERROR'',
       getApiVersionFromFilePath = (\<lambda>p. ''2020''),
       localeCompare = codeUnitCompare,
       loadSpec = (\<lambda>f. Inr (\<lambda>opId. Inr (Some (1, 1)))) \<rparr>"


definition mapper0 :: SpecMapper where
  "mapper0 =
     [(''w-2020.json'',
        [''W_Get'', ''W_Put'', ''W_Del'', ''G_List'', ''G_Get'', ''A_Get'', ''A_Put'', ''B_Get'',
         ''b_Get'', ''C_Get'']),
      (''x-2020.json'', [''X_Get'']),
      (''e-2020.json'', [])]"

definition oi0 :: "string \<Rightarrow> OperationContext" where
  "oi0 opId = \<lparr> operationId = opId, apiVersion = ''2020'', operationMatch = None,
               validationRequest = None, oc_position = None \<rparr>"

definition result0 :: "string \<Rightarrow> bool \<Rightarrow> LiveValidationResult" where
  "result0 opId ok =
     \<lparr> isSuccessful = Some ok,
       vr_errors = (if ok then [] else [rawIssue ''INVALID_TYPE'' [''$.a'']]),
       vr_runtimeException = None,
       vr_operationInfo = Some (oi0 opId) \<rparr>"

definition data0 :: "string \<Rightarrow> bool \<Rightarrow> SampleData" where
  "data0 opId ok =
     \<lparr> validationResult =
         \<lparr> requestValidationResult = result0 opId ok,
           responseValidationResult = result0 opId True,
           runtimeException = None \<rparr>,
       liveRequestUrl = ''/w'',
       opInfo = oi0 opId,
       liveRequestPosition = Some (2, 3),
       liveResponsePosition = Some (9, 3) \<rparr>"

definition sample0 :: "string \<Rightarrow> string \<Rightarrow> bool \<Rightarrow> Sample" where
  "sample0 file opId ok = \<lparr> trafficFile = file, sampleData = Inr (data0 opId ok) \<rparr>"

definition syntaxError0 :: Thrown where
  "syntaxError0 = \<lparr> thrown_message = Some ''Unexpected token'', thrown_Stack = None \<rparr>"

definition corrupt0 :: "string \<Rightarrow> Sample" where
  "corrupt0 file = \<lparr> trafficFile = file, sampleData = Inl syntaxError0 \<rparr>"

definition corpus0 :: "Sample list" where
  "corpus0 = [sample0 ''1.json'' ''W_Get'' False, corrupt0 ''2.json'', sample0 ''3.json'' ''W_Put'' False]"

definition corpus1 :: "Sample list" where
  "corpus1 = [sample0 ''1.json'' ''W_Get'' False, sample0 ''2.json'' ''b_Get'' True,
              sample0 ''3.json'' ''W_Put'' False, sample0 ''4.json'' ''A_Put'' True,
              sample0 ''5.json'' ''G_Get'' True, sample0 ''6.json'' ''W_Get'' True,
              sample0 ''7.json'' ''Z_Get'' True, sample0 ''8.json'' ''C_Get'' True]"

definition reportOf :: "Sample list \<Rightarrow> OperationCoverageInfo list" where
  "reportOf samples = operationCoverageResult (validate tenv0 mapper0 samples initialState)"

section \<open>Verified properties\<close>

subsection \<open>Helper lemmas on issue construction\<close>

lemma issueFromErrorCode_sel [simp]:
  "code (issueFromErrorCode env c p r) = c"
  "message (issueFromErrorCode env c p r) = getValidateErrorMessage env c p"
  "severity (issueFromErrorCode env c p r) = meta_severity (errorCodeToErrorMetadata env c)"
  by (simp_all add: issueFromErrorCode_def Let_def)

subsection \<open>Long-running operations: status codes\<close>

lemma absentOrEmpty_given:
  "(absentOrEmpty (headers ''location'') \<and> absentOrEmpty (headers ''azure-AsyncOperation'') \<and>
    absentOrEmpty (headers ''azure-asyncoperation'')) = (\<not> pollingHeaderGiven headers)"
  by (auto simp add: absentOrEmpty_def pollingHeaderGiven_def split: option.splits)

lemma validateLroOperation_issues:
  "validateLroOperation env operation sc headers result =
     (if x_ms_long_running_operation operation = Some True
      then result @
        map (\<lambda>c. issueFromErrorCode env c (lroMessageParams sc c) (responsesInfo operation))
          (lroIssueCodes (op_method operation) sc headers)
      else result)"
  by (simp add: validateLroOperation_def validateLroHeader_def absentOrEmpty_given
      lroIssueCodes_def lroValidCodes_def lroHeaderCodes_def lroMessageParams_def)

text \<open>
  C5. For an operation flagged long-running, the issues \<open>validateLroOperation\<close> appends are
  those of the method/status table: patch and post accept 201 and 202 and check the polling
  header on both; delete accepts 202 and 204 and checks the header on 202 only; put accepts
  200, 201 and 202 and checks the header on 201 and 202, never on 200; a status code outside
  the valid set of the method appends one issue with the code \<open>LRO_RESPONSE_CODE\<close>, whose
  message carries the status code; a failed header check appends one issue with the code
  \<open>LRO_RESPONSE_HEADER\<close>; any other method appends nothing. The issues are appended to the list
  given on entry. For an operation that is not flagged nothing is appended.
\<close>

theorem validateLroOperation_table:
  "(x_ms_long_running_operation operation = Some True \<longrightarrow>
      map code (validateLroOperation env operation sc headers []) =
        lroIssueCodes (op_method operation) sc headers \<and>
      map message (validateLroOperation env operation sc headers []) =
        map (\<lambda>c. getValidateErrorMessage env c (lroMessageParams sc c))
          (lroIssueCodes (op_method operation) sc headers) \<and>
      map severity (validateLroOperation env operation sc headers []) =
        map (\<lambda>c. meta_severity (errorCodeToErrorMetadata env c))
          (lroIssueCodes (op_method operation) sc headers) \<and>
      validateLroOperation env operation sc headers result =
        result @ validateLroOperation env operation sc headers []) \<and>
   (x_ms_long_running_operation operation \<noteq> Some True \<longrightarrow>
      validateLroOperation env operation sc headers result = result)"
  by (simp add: validateLroOperation_issues comp_def)

theorem validateLroOperation_table_witness:
  "map code (validateLroOperation env0 (op0 ''put'') ''200'' Map.empty []) = [] \<and>
   map code (validateLroOperation env0 (op0 ''put'') ''201'' Map.empty []) = [''LRO_RESPONSE_HEADER''] \<and>
   map code (validateLroOperation env0 (op0 ''put'') ''204'' Map.empty []) = [''LRO_RESPONSE_CODE''] \<and>
   map code (validateLroOperation env0 (op0 ''delete'') ''204'' Map.empty []) = [] \<and>
   map code (validateLroOperation env0 (op0 ''delete'') ''200'' Map.empty []) = [''LRO_RESPONSE_CODE''] \<and>
   map message (validateLroOperation env0 (op0 ''delete'') ''200'' Map.empty []) =
     [''LRO_RESPONSE_CODE:statusCode=200''] \<and>
   map code (validateLroOperation env0 (op0 ''post'') ''202'' [''location'' \<mapsto> ''u''] []) = [] \<and>
   map code (validateLroOperation env0 (op0 ''patch'') ''200'' Map.empty []) = [''LRO_RESPONSE_CODE''] \<and>
   map code (validateLroOperation env0 (op0 ''get'') ''500'' Map.empty []) = []"
proof -
  have l: "x_ms_long_running_operation (op0 m) = Some True" "op_method (op0 m) = m" for m
    by (simp_all add: op0_def)
  show ?thesis
    using validateLroOperation_table [of "op0 ''put''" env0 "''200''" Map.empty "[]"]
          validateLroOperation_table [of "op0 ''put''" env0 "''201''" Map.empty "[]"]
          validateLroOperation_table [of "op0 ''put''" env0 "''204''" Map.empty "[]"]
          validateLroOperation_table [of "op0 ''delete''" env0 "''204''" Map.empty "[]"]
          validateLroOperation_table [of "op0 ''delete''" env0 "''200''" Map.empty "[]"]
          validateLroOperation_table [of "op0 ''post''" env0 "''202''" "[''location'' \<mapsto> ''u'']" "[]"]
          validateLroOperation_table [of "op0 ''patch''" env0 "''200''" Map.empty "[]"]
          validateLroOperation_table [of "op0 ''get''" env0 "''500''" Map.empty "[]"]
    by (simp add: l lroIssueCodes_def lroValidCodes_def lroHeaderCodes_def pollingHeaderGiven_def
        lroMessageParams_def env0_def orUndefined_def)
qed


subsection \<open>Long-running operations: the polling header\<close>

lemma absentOrEmpty_iff: "absentOrEmpty (headers name) = (\<not> presentNonEmpty headers name)"
  by (auto simp: absentOrEmpty_def presentNonEmpty_def split: option.splits)

lemma validateLroHeader_eq:
  "validateLroHeader env operation headers result =
     (if presentNonEmpty headers ''location'' \<or> presentNonEmpty headers ''azure-AsyncOperation'' \<or>
         presentNonEmpty headers ''azure-asyncoperation''
      then result
      else result @ [lroHeaderIssue env operation])"
  by (simp add: validateLroHeader_def absentOrEmpty_iff lroHeaderIssue_def)

lemma presentNonEmpty_None: "headers name = None \<Longrightarrow> \<not> presentNonEmpty headers name"
  by (simp add: presentNonEmpty_def)

lemma delete_202:
  "x_ms_long_running_operation operation = Some True \<Longrightarrow> op_method operation = ''delete'' \<Longrightarrow>
   validateLroOperation env operation ''202'' headers result =
     validateLroHeader env operation headers result"
  by (simp add: validateLroOperation_def)

lemma toLowerChar_not_A: "toLowerChar c \<noteq> CHR ''A''"
proof
  assume a: "toLowerChar c = CHR ''A''"
  let ?n = "of_char c :: nat"
  show False
  proof (cases "65 \<le> ?n \<and> ?n \<le> 90")
    case True
    then have "toLowerChar c = char_of (?n + 32)" by (simp add: toLowerChar_def Let_def)
    then have "(of_char (char_of (?n + 32) :: char) :: nat) = of_char (CHR ''A'')" using a by simp
    then have "(?n + 32) mod 256 = 65" by simp
    then show False using True by simp
  next
    case False
    then have "toLowerChar c = c" by (auto simp add: toLowerChar_def Let_def)
    then have "c = CHR ''A''" using a by simp
    then have "?n = 65" by simp
    then show False using False by simp
  qed
qed

lemma toLowerCase_no_A: "CHR ''A'' \<notin> set (toLowerCase s)"
  using toLowerChar_not_A [THEN not_sym] by (auto simp add: toLowerCase_def)

lemma transformStep_None:
  "data k = None \<Longrightarrow>
   fold (\<lambda>(k, transform) d. case d k of None \<Rightarrow> d | Some v \<Rightarrow> d(k \<mapsto> transform v)) l data k = None"
proof (induction l arbitrary: data)
  case Nil
  then show ?case by simp
next
  case (Cons t l)
  obtain a f where t: "t = (a, f)" by (cases t)
  have "(case data a of None \<Rightarrow> data | Some v \<Rightarrow> data(a \<mapsto> f v)) k = None"
    using Cons.prems by (cases "data a") auto
  then show ?case using Cons.IH t by simp
qed

lemma transformMapValue_None: "data k = None \<Longrightarrow> transformMapValue data ts k = None"
  by (cases ts) (simp_all add: transformMapValue_def transformStep_None)

lemma lowered_keys:
  "CHR ''A'' \<in> set k \<Longrightarrow> m k = None \<Longrightarrow>
   fold (\<lambda>(headerName, v) result. result(toLowerCase headerName \<mapsto> v)) headers m k = None"
proof (induction headers arbitrary: m)
  case Nil
  then show ?case by simp
next
  case (Cons h hs)
  obtain n v where h: "h = (n, v)" by (cases h)
  have "toLowerCase n \<noteq> k" using Cons.prems(1) toLowerCase_no_A [of n] by auto
  then show ?case using Cons h by simp
qed

lemma transformLiveHeader_mixed_case:
  "transformLiveHeader headers it ''azure-AsyncOperation'' = None"
  by (simp add: transformLiveHeader_def transformMapValue_None lowered_keys)

text \<open>
  C6. The header check appends nothing when one of \<open>location\<close>, \<open>azure-AsyncOperation\<close>,
  \<open>azure-asyncoperation\<close> is present with a non-empty value, and otherwise appends exactly one
  \<open>LRO_RESPONSE_HEADER\<close> issue whose message parameter names \<open>location or
  azure-AsyncOperation\<close>. On the headers normalised by \<open>transformLiveHeader\<close> the mixed-case key
  is never present, so the check is decided by \<open>location\<close> and \<open>azure-asyncoperation\<close>. For a
  long-running delete answered with 202: no issue when \<open>location\<close> is present and non-empty,
  exactly that one issue when none of the three headers is present.
\<close>

theorem validateLroHeader_rule:
  "validateLroHeader env operation headers result =
     (if presentNonEmpty headers ''location'' \<or> presentNonEmpty headers ''azure-AsyncOperation'' \<or>
         presentNonEmpty headers ''azure-asyncoperation''
      then result
      else result @ [lroHeaderIssue env operation]) \<and>
   code (lroHeaderIssue env operation) = ''LRO_RESPONSE_HEADER'' \<and>
   message (lroHeaderIssue env operation) =
     getValidateErrorMessage env ''LRO_RESPONSE_HEADER''
       [(''header'', Some ''location or azure-AsyncOperation'')] \<and>
   validateLroHeader env operation (transformLiveHeader raw it) result =
     (if presentNonEmpty (transformLiveHeader raw it) ''location'' \<or>
         presentNonEmpty (transformLiveHeader raw it) ''azure-asyncoperation''
      then result
      else result @ [lroHeaderIssue env operation]) \<and>
   (x_ms_long_running_operation operation = Some True \<and> op_method operation = ''delete'' \<longrightarrow>
      (presentNonEmpty headers ''location'' \<longrightarrow>
         validateLroOperation env operation ''202'' headers [] = []) \<and>
      (headers ''location'' = None \<and> headers ''azure-AsyncOperation'' = None \<and>
       headers ''azure-asyncoperation'' = None \<longrightarrow>
         validateLroOperation env operation ''202'' headers [] = [lroHeaderIssue env operation]))"
proof (intro conjI impI)
  show "validateLroHeader env operation headers result =
     (if presentNonEmpty headers ''location'' \<or> presentNonEmpty headers ''azure-AsyncOperation'' \<or>
         presentNonEmpty headers ''azure-asyncoperation''
      then result
      else result @ [lroHeaderIssue env operation])"
    by (rule validateLroHeader_eq)
  show "code (lroHeaderIssue env operation) = ''LRO_RESPONSE_HEADER''"
    by (simp add: lroHeaderIssue_def)
  show "message (lroHeaderIssue env operation) =
     getValidateErrorMessage env ''LRO_RESPONSE_HEADER''
       [(''header'', Some ''location or azure-AsyncOperation'')]"
    by (simp add: lroHeaderIssue_def)
  show "validateLroHeader env operation (transformLiveHeader raw it) result =
     (if presentNonEmpty (transformLiveHeader raw it) ''location'' \<or>
         presentNonEmpty (transformLiveHeader raw it) ''azure-asyncoperation''
      then result
      else result @ [lroHeaderIssue env operation])"
    by (simp add: validateLroHeader_eq presentNonEmpty_None transformLiveHeader_mixed_case)
next
  assume a: "x_ms_long_running_operation operation = Some True \<and> op_method operation = ''delete''"
    and b: "presentNonEmpty headers ''location''"
  show "validateLroOperation env operation ''202'' headers [] = []"
    using a b by (simp add: delete_202 validateLroHeader_eq)
next
  assume a: "x_ms_long_running_operation operation = Some True \<and> op_method operation = ''delete''"
    and b: "headers ''location'' = None \<and> headers ''azure-AsyncOperation'' = None \<and>
       headers ''azure-asyncoperation'' = None"
  show "validateLroOperation env operation ''202'' headers [] = [lroHeaderIssue env operation]"
    using a b by (simp add: delete_202 validateLroHeader_eq presentNonEmpty_None)
qed

theorem validateLroHeader_rule_witness:
  "validateLroOperation env0 (op0 ''delete'') ''202'' [''location'' \<mapsto> ''https://poll''] [] = [] \<and>
   validateLroOperation env0 (op0 ''delete'') ''202'' Map.empty [] =
     [lroHeaderIssue env0 (op0 ''delete'')]"
  using validateLroHeader_rule [of env0 "op0 ''delete''" "[''location'' \<mapsto> ''https://poll'']" "[]"]
        validateLroHeader_rule [of env0 "op0 ''delete''" Map.empty "[]"]
  by (simp add: op0_def presentNonEmpty_def)

subsection \<open>The issue classifier\<close>

lemma schemaValidate_loop:
  "schemaValidateIssueToLiveValidationIssue env input operation ctx out =
     out @ map fst (filter (\<lambda>r. \<not> snd r) (map (classifyIssue env operation ctx) input))"
  by (induction input arbitrary: out) (simp_all add: Let_def)

lemma attachMetadata_sel [simp]:
  "code (attachMetadata env operation i) = code i"
  "jsonPathsInPayload (attachMetadata env operation i) = jsonPathsInPayload i"
  "params (attachMetadata env operation i) = params i"
  by (simp_all add: attachMetadata_def Let_def)

lemma mapPath_skip_stays: "snd (snd (mapPath env operation ctx p (i, True))) = True"
  by (simp add: mapPath_def Let_def)

lemma mapPaths_skip_stays: "snd (snd (mapPaths env operation ctx ps (i, True))) = True"
proof (induction ps arbitrary: i)
  case Nil
  then show ?case by simp
next
  case (Cons p ps)
  obtain r i' where m: "mapPath env operation ctx p (i, True) = (r, (i', True))"
    using mapPath_skip_stays [of env operation ctx p i]
    by (metis prod.collapse)
  show ?case using Cons.IH [of i'] by (simp add: Let_def m)
qed

lemma mapPath_body_root_lro:
  assumes "code i = ''OBJECT_MISSING_REQUIRED_PROPERTY''" "isResponse ctx"
    "x_ms_long_running_operation operation = Some True"
    "statusCode ctx = Some ''201'' \<or> statusCode ctx = Some ''202''"
  shows "snd (snd (mapPath env operation ctx ''.body'' (i, s))) = True"
  using assms by (auto simp add: mapPath_def Let_def startsWith_def)

lemma classifyIssue_suppressed:
  assumes "code i = ''OBJECT_MISSING_REQUIRED_PROPERTY''" "isResponse ctx"
    "x_ms_long_running_operation operation = Some True"
    "statusCode ctx = Some ''201'' \<or> statusCode ctx = Some ''202''"
    "jsonPathsInPayload i = ''.body'' # rest"
  shows "snd (classifyIssue env operation ctx i)"
proof -
  define i1 where "i1 = attachMetadata env operation i"
  have c: "code i1 = ''OBJECT_MISSING_REQUIRED_PROPERTY''"
    using assms(1) by (simp add: i1_def)
  obtain r i2 where m: "mapPath env operation ctx ''.body'' (i1, False) = (r, (i2, True))"
    using mapPath_body_root_lro [OF c assms(2,3,4), of env False] by (metis prod.collapse)
  have "snd (snd (mapPaths env operation ctx (''.body'' # rest) (i1, False)))"
    using mapPaths_skip_stays [of env operation ctx rest i2] by (simp add: Let_def m)
  then show ?thesis
    using assms(5) by (simp add: classifyIssue_def Let_def i1_def)
qed

lemma mapPath_below:
  "belowBodyRoot q \<Longrightarrow> snd (mapPath env operation ctx q st) = st"
  by (simp add: mapPath_def Let_def belowBodyRoot_def)

lemma mapPaths_append:
  "snd (mapPaths env operation ctx (xs @ ys) st) =
     snd (mapPaths env operation ctx ys (snd (mapPaths env operation ctx xs st)))"
  by (induction xs arbitrary: st) (simp_all add: Let_def)

lemma mapPaths_below:
  "list_all belowBodyRoot qs \<Longrightarrow> snd (mapPaths env operation ctx qs st) = st"
  by (induction qs arbitrary: st) (simp_all add: Let_def mapPath_below)

lemma mapPath_other_code:
  "code (fst st) \<noteq> ''OBJECT_MISSING_REQUIRED_PROPERTY'' \<Longrightarrow> snd (mapPath env operation ctx q st) = st"
  by (simp add: mapPath_def Let_def)

lemma mapPaths_other_code:
  "code (fst st) \<noteq> ''OBJECT_MISSING_REQUIRED_PROPERTY'' \<Longrightarrow> snd (mapPaths env operation ctx qs st) = st"
  by (induction qs arbitrary: st) (simp_all add: Let_def mapPath_other_code)

lemma params0_code [simp]: "params0 (i\<lparr>code := c\<rparr>) = params0 i"
  by (simp add: params0_def)

lemma mapPath_request:
  assumes "code i = ''OBJECT_MISSING_REQUIRED_PROPERTY''" "\<not> belowBodyRoot p" "\<not> isResponse ctx"
  shows "fst (snd (mapPath env operation ctx p (i, s))) = recode env ''MISSING_REQUIRED_PARAMETER'' i"
  using assms by (auto simp add: mapPath_def Let_def belowBodyRoot_def recode_def)

lemma mapPath_response_body:
  assumes "code i = ''OBJECT_MISSING_REQUIRED_PROPERTY''" "isResponse ctx"
  shows "fst (snd (mapPath env operation ctx ''.body'' (i, s))) = recode env ''INVALID_RESPONSE_BODY'' i"
  using assms by (auto simp add: mapPath_def Let_def startsWith_def recode_def)

lemma startsWith_headers_not_body: "startsWith p ''.headers'' \<Longrightarrow> \<not> startsWith p ''.body''"
  by (cases p; cases "tl p") (auto simp add: startsWith_def)

lemma mapPath_response_headers:
  assumes "code i = ''OBJECT_MISSING_REQUIRED_PROPERTY''" "isResponse ctx" "startsWith p ''.headers''"
  shows "fst (snd (mapPath env operation ctx p (i, s))) = recode env ''INVALID_RESPONSE_HEADER'' i"
  using assms startsWith_headers_not_body [OF assms(3)]
  by (simp add: mapPath_def Let_def recode_def)

lemma classifyIssue_first_decides:
  assumes "jsonPathsInPayload i = pre @ p # post" "list_all belowBodyRoot pre"
    and "fst (snd (mapPath env operation ctx p (attachMetadata env operation i, False))) = j"
    and "code j \<noteq> ''OBJECT_MISSING_REQUIRED_PROPERTY''"
  shows "code (fst (classifyIssue env operation ctx i)) = code j \<and>
         severity (fst (classifyIssue env operation ctx i)) = severity j \<and>
         message (fst (classifyIssue env operation ctx i)) = message j"
proof -
  let ?i1 = "attachMetadata env operation i"
  let ?m = "mapPaths env operation ctx"
  have "snd (?m (pre @ p # post) (?i1, False)) = snd (?m (p # post) (?i1, False))"
    using assms(2) by (simp add: mapPaths_append mapPaths_below)
  also have "\<dots> = snd (?m post (snd (mapPath env operation ctx p (?i1, False))))"
    by (simp add: Let_def)
  also have "\<dots> = snd (mapPath env operation ctx p (?i1, False))"
    using assms(3,4) by (simp add: mapPaths_other_code)
  finally have "fst (snd (?m (jsonPathsInPayload ?i1) (?i1, False))) = j"
    using assms(1,3) by simp
  then show ?thesis by (simp add: classifyIssue_def Let_def)
qed


lemma params0_attach [simp]: "params0 (attachMetadata env operation i) = params0 i"
  by (simp add: params0_def)

lemma recode_sel:
  "reclassified env i c (recode env c (attachMetadata env operation i))"
  by (simp add: reclassified_def recode_def)

lemma reclassified_cong:
  "code r = code j \<and> severity r = severity j \<and> message r = message j \<Longrightarrow>
   reclassified env i c j \<Longrightarrow> reclassified env i c r"
  by (simp add: reclassified_def)

lemma not_below_body: "\<not> belowBodyRoot ''.body''"
  by (simp add: belowBodyRoot_def)

lemma classifyIssue_all_below:
  "list_all belowBodyRoot (jsonPathsInPayload i) \<Longrightarrow>
   code (fst (classifyIssue env operation ctx i)) = code i"
  by (simp add: classifyIssue_def Let_def mapPaths_below)

lemma mapPath_below_result:
  "belowBodyRoot q \<Longrightarrow>
   fst (mapPath env operation ctx q st) = (bodyToRoot q, jsonPathToPointer env (bodyToRoot q))"
  by (simp add: mapPath_def Let_def belowBodyRoot_def bodyToRoot_def)

lemma mapPaths_below_result:
  "list_all belowBodyRoot qs \<Longrightarrow>
   fst (mapPaths env operation ctx qs st) =
     map (\<lambda>q. (bodyToRoot q, jsonPathToPointer env (bodyToRoot q))) qs"
  by (induction qs arbitrary: st) (simp_all add: Let_def mapPath_below mapPath_below_result)

lemma classifyIssue_all_below_eq:
  assumes "list_all belowBodyRoot (jsonPathsInPayload i)"
  shows "classifyIssue env operation ctx i =
           ((attachMetadata env operation i)
              \<lparr>jsonPathsInPayload := map bodyToRoot (jsonPathsInPayload i),
               pathsInPayload := map (\<lambda>q. jsonPathToPointer env (bodyToRoot q)) (jsonPathsInPayload i)\<rparr>,
            False)"
  using assms
  by (simp add: classifyIssue_def Let_def mapPaths_below mapPaths_below_result comp_def)

lemma attachMetadata_message [simp]:
  "message (attachMetadata env operation i) = message i"
  "source (attachMetadata env operation i) =
     (if url (source i) = [] then (source i)\<lparr>url := specFilePath operation\<rparr> else source i)"
  "severity (attachMetadata env operation i) = meta_severity (errorCodeToErrorMetadata env (code i))"
  "documentationUrl (attachMetadata env operation i) = docUrl (errorCodeToErrorMetadata env (code i))"
  "schemaPath (attachMetadata env operation i) = schemaPath i"
  by (simp_all add: attachMetadata_def Let_def)

lemma all_below_only_paths:
  assumes "list_all belowBodyRoot (jsonPathsInPayload i)"
  shows "onlyPathsRewritten env operation i (fst (classifyIssue env operation ctx i)) \<and>
         \<not> snd (classifyIssue env operation ctx i)"
  by (simp add: classifyIssue_all_below_eq [OF assms] onlyPathsRewritten_def)

lemma missing_required_property_cases:
  assumes "code i = ''OBJECT_MISSING_REQUIRED_PROPERTY''"
  shows
    "(list_all belowBodyRoot (jsonPathsInPayload i) \<longrightarrow>
        code (fst (classifyIssue env operation ctx i)) = ''OBJECT_MISSING_REQUIRED_PROPERTY'') \<and>
     (jsonPathsInPayload i = pre @ p # post \<and> list_all belowBodyRoot pre \<and> \<not> belowBodyRoot p \<longrightarrow>
        (\<not> isResponse ctx \<longrightarrow>
           reclassified env i ''MISSING_REQUIRED_PARAMETER'' (fst (classifyIssue env operation ctx i))) \<and>
        (isResponse ctx \<and> p = ''.body'' \<longrightarrow>
           reclassified env i ''INVALID_RESPONSE_BODY'' (fst (classifyIssue env operation ctx i))) \<and>
        (isResponse ctx \<and> startsWith p ''.headers'' \<longrightarrow>
           reclassified env i ''INVALID_RESPONSE_HEADER'' (fst (classifyIssue env operation ctx i))))"
proof (intro conjI impI)
  assume "list_all belowBodyRoot (jsonPathsInPayload i)"
  then show "code (fst (classifyIssue env operation ctx i)) = ''OBJECT_MISSING_REQUIRED_PROPERTY''"
    using assms by (simp add: classifyIssue_all_below)
next
  let ?i1 = "attachMetadata env operation i"
  have c: "code ?i1 = ''OBJECT_MISSING_REQUIRED_PROPERTY''" using assms by simp
  assume h: "jsonPathsInPayload i = pre @ p # post \<and> list_all belowBodyRoot pre \<and> \<not> belowBodyRoot p"
  {
    assume r: "\<not> isResponse ctx"
    have m: "fst (snd (mapPath env operation ctx p (?i1, False))) =
               recode env ''MISSING_REQUIRED_PARAMETER'' ?i1"
      using h r by (simp add: mapPath_request [OF c])
    have n: "code (recode env ''MISSING_REQUIRED_PARAMETER'' ?i1) \<noteq> ''OBJECT_MISSING_REQUIRED_PROPERTY''"
      by (simp add: recode_def)
    show "reclassified env i ''MISSING_REQUIRED_PARAMETER'' (fst (classifyIssue env operation ctx i))"
      using classifyIssue_first_decides [OF _ _ m n, of pre post] h
      by (metis reclassified_cong recode_sel)
  }
  {
    assume r: "isResponse ctx \<and> p = ''.body''"
    have m: "fst (snd (mapPath env operation ctx p (?i1, False))) =
               recode env ''INVALID_RESPONSE_BODY'' ?i1"
      using r by (simp add: mapPath_response_body [OF c])
    have n: "code (recode env ''INVALID_RESPONSE_BODY'' ?i1) \<noteq> ''OBJECT_MISSING_REQUIRED_PROPERTY''"
      by (simp add: recode_def)
    show "reclassified env i ''INVALID_RESPONSE_BODY'' (fst (classifyIssue env operation ctx i))"
      using classifyIssue_first_decides [OF _ _ m n, of pre post] h
      by (metis reclassified_cong recode_sel)
  }
  {
    assume r: "isResponse ctx \<and> startsWith p ''.headers''"
    have m: "fst (snd (mapPath env operation ctx p (?i1, False))) =
               recode env ''INVALID_RESPONSE_HEADER'' ?i1"
      using r by (simp add: mapPath_response_headers [OF c])
    have n: "code (recode env ''INVALID_RESPONSE_HEADER'' ?i1) \<noteq> ''OBJECT_MISSING_REQUIRED_PROPERTY''"
      by (simp add: recode_def)
    show "reclassified env i ''INVALID_RESPONSE_HEADER'' (fst (classifyIssue env operation ctx i))"
      using classifyIssue_first_decides [OF _ _ m n, of pre post] h
      by (metis reclassified_cong recode_sel)
  }
qed

text \<open>
  C2, as amended. Let \<open>i\<close> be a raw issue with code \<open>OBJECT_MISSING_REQUIRED_PROPERTY\<close>. If every
  payload path of \<open>i\<close> lies strictly below the body root, the issue is not suppressed, its code,
  message and parameters are left as they are, it gets the metadata of that code, and its
  paths are rewritten: each path has its prefix \<open>.body\<close> replaced by \<open>$\<close>, and the pointers are
  the JSON pointers of the rewritten paths. Otherwise let \<open>p\<close> be the first payload path that
  does not lie strictly below the body root: in a request the final code is
  \<open>MISSING_REQUIRED_PARAMETER\<close>; in a response it is \<open>INVALID_RESPONSE_BODY\<close> when \<open>p\<close> is the
  body root \<open>.body\<close> and \<open>INVALID_RESPONSE_HEADER\<close> when \<open>p\<close> starts with \<open>.headers\<close>; in these
  three cases the message is that of the new code with the first parameter of the raw issue as
  the missing property, and the severity is that of the new code.
\<close>

theorem missing_required_property_reclassified:
  assumes "code i = ''OBJECT_MISSING_REQUIRED_PROPERTY''"
  shows
    "(list_all belowBodyRoot (jsonPathsInPayload i) \<longrightarrow>
        onlyPathsRewritten env operation i (fst (classifyIssue env operation ctx i)) \<and>
        \<not> snd (classifyIssue env operation ctx i) \<and>
        code (fst (classifyIssue env operation ctx i)) = ''OBJECT_MISSING_REQUIRED_PROPERTY'') \<and>
     (jsonPathsInPayload i = pre @ p # post \<and> list_all belowBodyRoot pre \<and> \<not> belowBodyRoot p \<longrightarrow>
        (\<not> isResponse ctx \<longrightarrow>
           reclassified env i ''MISSING_REQUIRED_PARAMETER'' (fst (classifyIssue env operation ctx i))) \<and>
        (isResponse ctx \<and> p = ''.body'' \<longrightarrow>
           reclassified env i ''INVALID_RESPONSE_BODY'' (fst (classifyIssue env operation ctx i))) \<and>
        (isResponse ctx \<and> startsWith p ''.headers'' \<longrightarrow>
           reclassified env i ''INVALID_RESPONSE_HEADER'' (fst (classifyIssue env operation ctx i))))"
  using all_below_only_paths [of i env operation ctx]
    missing_required_property_cases [OF assms, of env operation ctx pre p post]
  by blast

theorem missing_required_property_reclassified_witness:
  "reclassified env0 (omrp [''.body.a'', ''.body'']) ''MISSING_REQUIRED_PARAMETER''
     (fst (classifyIssue env0 (op0 ''put'') requestCtx (omrp [''.body.a'', ''.body'']))) \<and>
   reclassified env0 (omrp [''.body'']) ''INVALID_RESPONSE_BODY''
     (fst (classifyIssue env0 (op0 ''put'') (responseCtx ''200'') (omrp [''.body'']))) \<and>
   reclassified env0 (omrp [''.headers.etag'']) ''INVALID_RESPONSE_HEADER''
     (fst (classifyIssue env0 (op0 ''put'') (responseCtx ''200'') (omrp [''.headers.etag'']))) \<and>
   code (fst (classifyIssue env0 (op0 ''put'') requestCtx (omrp [''.body.a'']))) =
     ''OBJECT_MISSING_REQUIRED_PROPERTY'' \<and>
   jsonPathsInPayload (fst (classifyIssue env0 (op0 ''put'') requestCtx (omrp [''.body.a'']))) =
     [''$.a''] \<and>
   pathsInPayload (fst (classifyIssue env0 (op0 ''put'') requestCtx (omrp [''.body.a'']))) =
     [''/a'']"
  using missing_required_property_reclassified
          [where i = "omrp [''.body.a'', ''.body'']" and pre = "[''.body.a'']" and p = "''.body''"
             and post = "[]" and ctx = requestCtx and env = env0 and operation = "op0 ''put''"]
        missing_required_property_reclassified
          [where i = "omrp [''.body'']" and pre = "[]" and p = "''.body''"
             and post = "[]" and ctx = "responseCtx ''200''" and env = env0 and operation = "op0 ''put''"]
        missing_required_property_reclassified
          [where i = "omrp [''.headers.etag'']" and pre = "[]" and p = "''.headers.etag''"
             and post = "[]" and ctx = "responseCtx ''200''" and env = env0 and operation = "op0 ''put''"]
        missing_required_property_reclassified
          [where i = "omrp [''.body.a'']" and ctx = requestCtx and env = env0 and operation = "op0 ''put''"]
  by (simp add: omrp_def rawIssue_def belowBodyRoot_def startsWith_def requestCtx_def responseCtx_def
      onlyPathsRewritten_def bodyToRoot_def env0_def)

text \<open>
  C2 as the specification states it fails on a required property missing inside a nested object of the
  body: in a request and in a response the issue keeps the code
  \<open>OBJECT_MISSING_REQUIRED_PROPERTY\<close>.
\<close>

theorem missing_required_property_counterexample:
  "map code (schemaValidateIssueToLiveValidationIssue env0 [omrp [''.body.properties'']]
               (op0 ''put'') requestCtx []) = [''OBJECT_MISSING_REQUIRED_PROPERTY''] \<and>
   map code (schemaValidateIssueToLiveValidationIssue env0 [omrp [''.body.properties'']]
               (op0 ''put'') (responseCtx ''200'') []) = [''OBJECT_MISSING_REQUIRED_PROPERTY'']"
  by (simp add: omrp_def rawIssue_def classifyIssue_def attachMetadata_def mapPath_def Let_def
      startsWith_def requestCtx_def responseCtx_def env0_def)

text \<open>
  C3. In a response of an operation flagged long-running with status code 201 or 202, a
  \<open>OBJECT_MISSING_REQUIRED_PROPERTY\<close> issue whose first payload path is the body root is not in
  the output: the output is that of the input without the issue. The output is always the list
  given on entry followed by the classified issues that are not skipped, in the order of the
  input.
\<close>

theorem lro_body_root_suppressed:
  assumes "code i = ''OBJECT_MISSING_REQUIRED_PROPERTY''" "isResponse ctx"
    "x_ms_long_running_operation operation = Some True"
    "statusCode ctx = Some ''201'' \<or> statusCode ctx = Some ''202''"
    "jsonPathsInPayload i = ''.body'' # rest"
  shows "schemaValidateIssueToLiveValidationIssue env (before @ i # after) operation ctx out =
           schemaValidateIssueToLiveValidationIssue env (before @ after) operation ctx out \<and>
         schemaValidateIssueToLiveValidationIssue env input operation ctx out =
           out @ map fst (filter (\<lambda>r. \<not> snd r) (map (classifyIssue env operation ctx) input))"
  using classifyIssue_suppressed [OF assms, of env]
  by (simp add: schemaValidate_loop)

theorem lro_body_root_suppressed_witness:
  "schemaValidateIssueToLiveValidationIssue env0
     [rawIssue ''TYPE'' [''.body.a''], omrp [''.body''], rawIssue ''ENUM'' [''.body.b'']]
     (op0 ''put'') (responseCtx ''201'') [] =
   schemaValidateIssueToLiveValidationIssue env0
     [rawIssue ''TYPE'' [''.body.a''], rawIssue ''ENUM'' [''.body.b'']]
     (op0 ''put'') (responseCtx ''201'') [] \<and>
   map code (schemaValidateIssueToLiveValidationIssue env0
     [rawIssue ''TYPE'' [''.body.a''], omrp [''.body''], rawIssue ''ENUM'' [''.body.b'']]
     (op0 ''put'') (responseCtx ''201'') []) = [''TYPE'', ''ENUM'']"
proof -
  have s: "schemaValidateIssueToLiveValidationIssue env0
     ([rawIssue ''TYPE'' [''.body.a'']] @ omrp [''.body''] # [rawIssue ''ENUM'' [''.body.b'']])
     (op0 ''put'') (responseCtx ''201'') [] =
   schemaValidateIssueToLiveValidationIssue env0
     ([rawIssue ''TYPE'' [''.body.a'']] @ [rawIssue ''ENUM'' [''.body.b'']])
     (op0 ''put'') (responseCtx ''201'') []"
    using lro_body_root_suppressed
          [where i = "omrp [''.body'']" and rest = "[]" and ctx = "responseCtx ''201''"
             and env = env0 and operation = "op0 ''put''" and before = "[rawIssue ''TYPE'' [''.body.a'']]"
             and after = "[rawIssue ''ENUM'' [''.body.b'']]" and out = "[]"]
    by (simp add: omrp_def rawIssue_def responseCtx_def op0_def)
  have c: "map code (schemaValidateIssueToLiveValidationIssue env0
     [rawIssue ''TYPE'' [''.body.a''], rawIssue ''ENUM'' [''.body.b'']]
     (op0 ''put'') (responseCtx ''201'') []) = [''TYPE'', ''ENUM'']"
    by (simp add: rawIssue_def classifyIssue_def attachMetadata_def mapPath_def Let_def
      startsWith_def responseCtx_def env0_def)
  show ?thesis using s c by simp
qed

subsection \<open>The content-type gate\<close>

text \<open>
  C7. A request without a \<open>content-type\<close> header gets no issue from the gate. For a response
  without the header the content type is \<open>application/octet-stream\<close>, and one
  \<open>INVALID_CONTENT_TYPE\<close> issue is appended exactly when that string is not in the allowed list.
  When the header is present, the content type is the part of its value before the first \<open>;\<close>,
  and an issue is appended exactly when that string is not an element of the allowed list; list
  membership is equality of strings, so letter case counts. A header whose value has nothing
  before the first \<open>;\<close> is treated like an absent header.
\<close>

theorem validateContentType_gate:
  "(headers ''content-type'' = None \<longrightarrow>
      validateContentType env allowed headers True result = result) \<and>
   (headers ''content-type'' = None \<longrightarrow>
      contentTypeOf headers False = Some ''application/octet-stream'' \<and>
      validateContentType env allowed headers False result =
        (if ''application/octet-stream'' \<in> set allowed then result
         else result @ [issueFromErrorCode env ''INVALID_CONTENT_TYPE''
               [(''contentType'', Some ''application/octet-stream''),
                (''supported'', Some (joinWith '', '' allowed))] None])) \<and>
   (headers ''content-type'' = Some v \<and> splitFirst CHR '';'' v \<noteq> [] \<longrightarrow>
      contentTypeOf headers isRequest = Some (splitFirst CHR '';'' v) \<and>
      validateContentType env allowed headers isRequest result =
        (if splitFirst CHR '';'' v \<in> set allowed then result
         else result @ [issueFromErrorCode env ''INVALID_CONTENT_TYPE''
               [(''contentType'', Some (splitFirst CHR '';'' v)),
                (''supported'', Some (joinWith '', '' allowed))] None])) \<and>
   (headers ''content-type'' = Some v \<and> splitFirst CHR '';'' v = [] \<longrightarrow>
      validateContentType env allowed headers isRequest result =
        validateContentType env allowed Map.empty isRequest result)"
  by (simp add: validateContentType_def contentTypeOf_def)

theorem validateContentType_gate_witness:
  "validateContentType env0 [''application/json''] Map.empty True [] = [] \<and>
   map code (validateContentType env0 [''application/json''] Map.empty False []) =
     [''INVALID_CONTENT_TYPE''] \<and>
   validateContentType env0 [''application/json'', ''application/octet-stream''] Map.empty False [] = [] \<and>
   validateContentType env0 [''application/json'']
     [''content-type'' \<mapsto> ''application/json; charset=utf-8''] False [] = [] \<and>
   map code (validateContentType env0 [''application/json'']
     [''content-type'' \<mapsto> ''Application/JSON''] True []) = [''INVALID_CONTENT_TYPE'']"
  using validateContentType_gate [of Map.empty env0 "[''application/json'']" "[]"]
        validateContentType_gate [of Map.empty env0 "[''application/json'', ''application/octet-stream'']" "[]"]
        validateContentType_gate [of "[''content-type'' \<mapsto> ''application/json; charset=utf-8'']"
           env0 "[''application/json'']" "[]" "''application/json; charset=utf-8''" False]
        validateContentType_gate [of "[''content-type'' \<mapsto> ''Application/JSON'']"
           env0 "[''application/json'']" "[]" "''Application/JSON''" True]
  by (simp add: splitFirst_def)

subsection \<open>Resolution of the response definition\<close>





subsection \<open>The loop over the traffic files: what every step preserves\<close>

text \<open>
  The loops change the state only by four kinds of writes. A property kept by each of them is
  kept by the loop over the specification files, by the body of the loop over the traffic
  files, and by that loop, also when a throw ends them early.
\<close>

lemma forSwaggerFiles_state:
  assumes step1: "\<And>s f. Q f \<Longrightarrow> P s \<Longrightarrow>
           P (s\<lparr>trafficOperation := addOperation (trafficOperation s) f (operationId (opInfo d))\<rparr>)"
    and step2: "\<And>s f. Q f \<Longrightarrow> failing (validationResult d) \<Longrightarrow> P s \<Longrightarrow>
           P (s\<lparr>validationFailOperations :=
                  addOperation (validationFailOperations s) f (operationId (opInfo d))\<rparr>)"
    and step3: "\<And>s f r. Q f \<Longrightarrow> failing (validationResult d) \<Longrightarrow>
           payloadFilePath r = Some file \<Longrightarrow> tvi_specFilePath r = Some f \<Longrightarrow> P s \<Longrightarrow>
           P (s\<lparr>trafficValidationResult := trafficValidationResult s @ [r]\<rparr>)"
  shows "P st \<Longrightarrow> \<forall>f\<in>set fs. Q f \<Longrightarrow> P (fst (forSwaggerFiles tenv file d pos fs oi st))"
proof (induction fs arbitrary: oi st)
  case Nil
  then show ?case by simp
next
  case (Cons f fs)
  let ?st1 = "st\<lparr>trafficOperation := addOperation (trafficOperation st) f (operationId (opInfo d))\<rparr>"
  have q: "Q f" and qs: "\<forall>f\<in>set fs. Q f" using Cons.prems(2) by simp_all
  have p1: "P ?st1" using Cons.prems(1) q by (rule_tac step1)
  have step: "\<And>oi' s. P s \<Longrightarrow> P (fst (forSwaggerFiles tenv file d pos fs oi' s))"
    using Cons.IH qs by simp
  show ?case
  proof (cases "failing (validationResult d)")
    case False
    then show ?thesis using step [OF p1] by (simp add: Let_def)
  next
    case True
    let ?st2 = "?st1\<lparr>validationFailOperations :=
                  addOperation (validationFailOperations ?st1) f (operationId (opInfo d))\<rparr>"
    have p2: "P ?st2" using step2 [OF q True p1] by simp
    show ?thesis
    proof (cases "loadSpec tenv f")
      case (Inl t)
      then show ?thesis using True p2 by (simp add: Let_def)
    next
      case (Inr positionOf)
      note ls = Inr
      show ?thesis
      proof (cases oi)
        case None
        then show ?thesis using True p2 ls by (simp add: Let_def)
      next
        case (Some info)
        show ?thesis
        proof (cases "positionOf (operationId info)")
          case (Inl t)
          then show ?thesis using True p2 ls Some by (simp add: Let_def)
        next
          case (Inr operationIdPosition)
          have "\<And>r. payloadFilePath r = Some file \<Longrightarrow> tvi_specFilePath r = Some f \<Longrightarrow>
                  P (?st2\<lparr>trafficValidationResult := trafficValidationResult ?st2 @ [r]\<rparr>)"
            using step3 [OF q True _ _ p2] by simp
          then show ?thesis
            using True ls Some Inr step
            by (simp add: Let_def)
        qed
      qed
    qed
  qed
qed

lemma swaggerFilesOf_member:
  "f \<in> set (swaggerFilesOf mapper d) \<Longrightarrow> operationId (opInfo d) \<in> set (mapperGet mapper f)"
  by (auto simp add: swaggerFilesOf_def findSwaggerByOperationInfo_def findSwaggerByOperationId_def
      split: if_splits option.splits)

lemma validateSample_state:
  assumes step1: "\<And>s f op. op \<in> set (mapperGet mapper f) \<Longrightarrow> P s \<Longrightarrow>
           P (s\<lparr>trafficOperation := addOperation (trafficOperation s) f op\<rparr>)"
    and step2: "\<And>s f op. P s \<Longrightarrow>
           P (s\<lparr>validationFailOperations := addOperation (validationFailOperations s) f op\<rparr>)"
    and step3: "\<And>s r d. sampleData smp = Inr d \<Longrightarrow> failing (validationResult d) \<Longrightarrow>
           payloadFilePath r = Some (trafficFile smp) \<Longrightarrow> tvi_specFilePath r \<noteq> None \<Longrightarrow> P s \<Longrightarrow>
           P (s\<lparr>trafficValidationResult := trafficValidationResult s @ [r]\<rparr>)"
    and step4: "\<And>s. P s \<Longrightarrow> P (s\<lparr>operationUndefinedResult := operationUndefinedResult s + 1\<rparr>)"
    and init: "P st"
  shows "P (fst (validateSample tenv mapper smp st))"
proof (cases "sampleData smp")
  case (Inl t)
  then show ?thesis using init by (simp add: validateSample_def)
next
  case (Inr d)
  show ?thesis
  proof (cases "swaggerFilesOf mapper d = []")
    case True
    then show ?thesis using Inr step4 [OF init] by (simp add: validateSample_def Let_def)
  next
    case False
    have "P (fst (forSwaggerFiles tenv (trafficFile smp) d pos (swaggerFilesOf mapper d) oi st))"
      for pos oi
    proof (rule forSwaggerFiles_state
        [where Q = "\<lambda>f. operationId (opInfo d) \<in> set (mapperGet mapper f)"])
      show "P st" by (rule init)
      show "\<forall>f\<in>set (swaggerFilesOf mapper d). operationId (opInfo d) \<in> set (mapperGet mapper f)"
        by (simp add: swaggerFilesOf_member)
    next
      fix s f assume "operationId (opInfo d) \<in> set (mapperGet mapper f)" "P s"
      then show "P (s\<lparr>trafficOperation :=
                        addOperation (trafficOperation s) f (operationId (opInfo d))\<rparr>)"
        by (rule step1)
    next
      fix s f assume "P s"
      then show "P (s\<lparr>validationFailOperations :=
                        addOperation (validationFailOperations s) f (operationId (opInfo d))\<rparr>)"
        by (rule step2)
    next
      fix s f and r :: TrafficValidationIssue
      assume "failing (validationResult d)" "payloadFilePath r = Some (trafficFile smp)"
        "tvi_specFilePath r = Some f" "P s"
      then show "P (s\<lparr>trafficValidationResult := trafficValidationResult s @ [r]\<rparr>)"
        using step3 [OF Inr] by simp
    qed
    then show ?thesis using Inr False by (simp add: validateSample_def Let_def)
  qed
qed

lemma forTrafficFiles_state:
  assumes step1: "\<And>s f op. op \<in> set (mapperGet mapper f) \<Longrightarrow> P s \<Longrightarrow>
           P (s\<lparr>trafficOperation := addOperation (trafficOperation s) f op\<rparr>)"
    and step2: "\<And>s f op. P s \<Longrightarrow>
           P (s\<lparr>validationFailOperations := addOperation (validationFailOperations s) f op\<rparr>)"
    and step3: "\<And>s r smp d. R smp \<Longrightarrow> sampleData smp = Inr d \<Longrightarrow> failing (validationResult d) \<Longrightarrow>
           payloadFilePath r = Some (trafficFile smp) \<Longrightarrow> tvi_specFilePath r \<noteq> None \<Longrightarrow> P s \<Longrightarrow>
           P (s\<lparr>trafficValidationResult := trafficValidationResult s @ [r]\<rparr>)"
    and step4: "\<And>s. P s \<Longrightarrow> P (s\<lparr>operationUndefinedResult := operationUndefinedResult s + 1\<rparr>)"
  shows "P st \<Longrightarrow> \<forall>smp\<in>set samples. R smp \<Longrightarrow> P (fst (forTrafficFiles tenv mapper samples st))"
proof (induction samples arbitrary: st)
  case Nil
  then show ?case by simp
next
  case (Cons smp rest)
  have r: "R smp" and rs: "\<forall>smp\<in>set rest. R smp" using Cons.prems(2) by simp_all
  have p1: "P (fst (validateSample tenv mapper smp st))"
    using step1 step2 step3 [OF r] step4 Cons.prems(1) by (rule validateSample_state)
  obtain st1 t where v: "validateSample tenv mapper smp st = (st1, t)"
    by (cases "validateSample tenv mapper smp st")
  show ?case
  proof (cases t)
    case None
    then show ?thesis using v p1 Cons.IH [OF _ rs, of st1] by simp
  next
    case (Some e)
    then show ?thesis using v p1 by simp
  qed
qed

lemma forTrafficFiles_append:
  "forTrafficFiles tenv mapper (xs @ ys) st =
     (case forTrafficFiles tenv mapper xs st of
        (st1, None) \<Rightarrow> forTrafficFiles tenv mapper ys st1
      | (st1, Some e) \<Rightarrow> (st1, Some e))"
  by (induction xs arbitrary: st) (auto split: prod.splits option.splits)

lemma rollupSpec_keeps [simp]:
  "trafficValidationResult (rollupSpec tenv k value st) = trafficValidationResult st"
  "trafficOperation (rollupSpec tenv k value st) = trafficOperation st"
  "validationFailOperations (rollupSpec tenv k value st) = validationFailOperations st"
  by (simp_all add: rollupSpec_def Let_def)

lemma rollup_keeps [simp]:
  "trafficValidationResult (rollup tenv mapper st) = trafficValidationResult st"
  "trafficOperation (rollup tenv mapper st) = trafficOperation st"
  "validationFailOperations (rollup tenv mapper st) = validationFailOperations st"
  unfolding rollup_def
  by (induction mapper arbitrary: st; simp split: prod.splits)+

lemma tryTrafficFiles_keeps [simp]:
  "trafficOperation (tryTrafficFiles tenv mapper samples st) =
     trafficOperation (fst (forTrafficFiles tenv mapper samples st))"
  "operationCoverageResult (tryTrafficFiles tenv mapper samples st) =
     operationCoverageResult (fst (forTrafficFiles tenv mapper samples st))"
  by (auto simp add: tryTrafficFiles_def split: prod.splits option.splits)

lemma validateSample_results_grow:
  "\<exists>more. trafficValidationResult (fst (validateSample tenv mapper smp st)) =
            trafficValidationResult st @ more"
  by (rule validateSample_state
      [where P = "\<lambda>s. \<exists>more. trafficValidationResult s = trafficValidationResult st @ more"])
     auto


subsection \<open>An exception while processing a sample\<close>

text \<open>
  C1, as amended. When the samples before a sample are processed without a throw and the
  processing of that sample throws, the state written so far is kept (the records of the
  earlier samples are a prefix of the result list), exactly one record is appended that
  carries the path of that sample and one \<open>RuntimeException\<close> with the code \<open>RUNTIME_ERROR\<close>, and
  the loop ends: the samples after it are not processed, the run gives the result it gives
  without them, and the coverage report is still computed.
\<close>

theorem first_exception_ends_run:
  assumes "forTrafficFiles tenv mapper before st = (st1, None)"
    and "validateSample tenv mapper bad st1 = (st2, Some err)"
  shows "tryTrafficFiles tenv mapper (before @ bad # after) st =
           st2\<lparr>trafficValidationResult :=
                 trafficValidationResult st2 @ [runLevelException tenv (trafficFile bad) err]\<rparr> \<and>
         (\<exists>more. trafficValidationResult st2 = trafficValidationResult st1 @ more) \<and>
         validate tenv mapper (before @ bad # after) st = validate tenv mapper (before @ [bad]) st"
proof -
  have l: "forTrafficFiles tenv mapper (before @ bad # rest) st = (st2, Some (trafficFile bad, err))"
    for rest
    using assms by (simp add: forTrafficFiles_append)
  have g: "\<exists>more. trafficValidationResult st2 = trafficValidationResult st1 @ more"
    using validateSample_results_grow [of tenv mapper bad st1] assms(2) by simp
  show ?thesis
    using l [of after] l [of "[]"] g by (simp add: tryTrafficFiles_def validate_def)
qed

theorem first_exception_ends_run_witness:
  "validate tenv0 mapper0
     ([sample0 ''1.json'' ''W_Get'' False] @ corrupt0 ''2.json'' # [sample0 ''3.json'' ''W_Put'' False])
     initialState =
   validate tenv0 mapper0 ([sample0 ''1.json'' ''W_Get'' False] @ [corrupt0 ''2.json'']) initialState \<and>
   map runtimeExceptions (trafficValidationResult (validate tenv0 mapper0 corpus0 initialState)) =
     [Some [],
      Some [Some \<lparr> rt_code = ''RUNTIME_ERROR'',
                    rt_message = ''Detail error message:Unexpected token. ErrorStack:undefined'',
                    rt_spec = None \<rparr>]]"
proof -
  have "snd (forTrafficFiles tenv0 mapper0 [sample0 ''1.json'' ''W_Get'' False] initialState) = None"
    by code_simp
  then obtain st1 where
    f: "forTrafficFiles tenv0 mapper0 [sample0 ''1.json'' ''W_Get'' False] initialState = (st1, None)"
    by (metis prod.collapse)
  have v: "validateSample tenv0 mapper0 (corrupt0 ''2.json'') st1 = (st1, Some syntaxError0)"
    by (simp add: validateSample_def corrupt0_def)
  have r: "map runtimeExceptions (trafficValidationResult (validate tenv0 mapper0 corpus0 initialState)) =
     [Some [],
      Some [Some \<lparr> rt_code = ''RUNTIME_ERROR'',
                    rt_message = ''Detail error message:Unexpected token. ErrorStack:undefined'',
                    rt_spec = None \<rparr>]]"
    by code_simp
  show ?thesis
    using first_exception_ends_run [OF f v, of "[sample0 ''3.json'' ''W_Put'' False]"] r by simp
qed

text \<open>
  C1 as the specification states it fails on three samples of which the second is corrupt: the result
  list holds the record of the first sample and the exception record only, and the operation of
  the third sample is not counted as exercised, although the third sample alone yields a
  record.
\<close>

theorem one_bad_sample_counterexample:
  "map payloadFilePath (trafficValidationResult (validate tenv0 mapper0 corpus0 initialState)) =
     [Some ''1.json'', Some ''2.json''] \<and>
   trafficOperation (validate tenv0 mapper0 corpus0 initialState) ''w-2020.json'' = Some [''W_Get''] \<and>
   map payloadFilePath (trafficValidationResult
       (validate tenv0 mapper0 [sample0 ''3.json'' ''W_Put'' False] initialState)) = [Some ''3.json'']"
  by code_simp

subsection \<open>Samples that pass validation\<close>














subsection \<open>The arithmetic of the coverage report\<close>

lemma addOperation_Some:
  "addOperation m f op k = Some ops \<Longrightarrow>
     (k \<noteq> f \<and> m k = Some ops) \<or>
     (k = f \<and> (m f = Some ops \<and> op \<in> set ops \<or>
               (\<exists>old. (m f = Some old \<or> (m f = None \<and> old = [])) \<and> op \<notin> set old \<and> ops = old @ [op])))"
  by (auto simp add: addOperation_def Let_def split: if_splits option.splits)

lemma specInv_addOperation:
  assumes "op \<in> set (mapperGet mapper f)" "specInv mapper s"
  shows "specInv mapper (s\<lparr>trafficOperation := addOperation (trafficOperation s) f op\<rparr>)"
  unfolding specInv_def
proof (intro allI impI)
  fix k ops
  assume "trafficOperation (s\<lparr>trafficOperation := addOperation (trafficOperation s) f op\<rparr>) k = Some ops"
  then have a: "addOperation (trafficOperation s) f op k = Some ops" by simp
  have old: "\<And>l. trafficOperation s k = Some l \<Longrightarrow> distinct l \<and> set l \<subseteq> set (mapperGet mapper k)"
    using assms(2) by (simp add: specInv_def)
  from addOperation_Some [OF a]
  consider "trafficOperation s k = Some ops"
    | old where "k = f" "trafficOperation s f = Some old" "op \<notin> set old" "ops = old @ [op]"
    | "k = f" "ops = [op]"
    by auto
  then show "distinct ops \<and> set ops \<subseteq> set (mapperGet mapper k)"
  proof cases
    case 1
    then show ?thesis by (rule old)
  next
    case 2
    then show ?thesis using old [of old] assms(1) by simp
  next
    case 3
    then show ?thesis using assms(1) by simp
  qed
qed

lemma specInv_forTrafficFiles:
  "specInv mapper st \<Longrightarrow> specInv mapper (fst (forTrafficFiles tenv mapper samples st))"
  by (rule forTrafficFiles_state [where P = "specInv mapper" and R = "\<lambda>_. True"])
     (simp_all add: specInv_addOperation, simp_all add: specInv_def)

lemma specInv_initial: "specInv mapper initialState"
  by (simp add: specInv_def initialState_def)

lemma specInv_tryTrafficFiles:
  "specInv mapper st \<Longrightarrow> specInv mapper (tryTrafficFiles tenv mapper samples st)"
  using specInv_forTrafficFiles [of mapper st tenv samples]
  by (simp add: specInv_def)

lemma mapperGet_entry:
  "distinct (map fst mapper) \<Longrightarrow> (k, value) \<in> set mapper \<Longrightarrow> mapperGet mapper k = value"
  by (simp add: mapperGet_def)

lemma length_le_declared:
  assumes "distinct ops" "set ops \<subseteq> set value"
  shows "length ops \<le> length value"
proof -
  have "length ops = card (set ops)" using assms(1) by (simp add: distinct_card)
  also have "\<dots> \<le> card (set value)" using assms(2) by (simp add: card_mono)
  also have "\<dots> \<le> length value" by (rule card_length)
  finally show ?thesis .
qed

lemma rollupSpec_report:
  "operationCoverageResult (rollupSpec tenv k value st) =
     operationCoverageResult st @
     (case trafficOperation st k of
        None \<Rightarrow> []
      | Some ops \<Rightarrow>
          if value \<noteq> [] then
            [\<lparr> spec = k,
               cov_apiVersion = getApiVersionFromFilePath tenv k,
               coveredOperations = length ops,
               coveredOperationsList =
                 sortByOperationId (map (\<lambda>element. \<lparr> om_operationId = element \<rparr>) ops),
               cov_validationFailOperations =
                 (case validationFailOperations st k of None \<Rightarrow> 0 | Some l \<Rightarrow> length l),
               unCoveredOperations = int (length value) - int (length ops),
               unCoveredOperationsList =
                 sortByOperationId (map unCoveredItem (unValidatedOperations value ops)),
               unCoveredOperationsListGen =
                 bubbleSort (localeCompare tenv)
                   (unCoveredBatches (map unCoveredItem (unValidatedOperations value ops))),
               totalOperations = length value,
               coverageRate = of_nat (length ops) / of_nat (length value) \<rparr>]
          else [])"
  by (simp add: rollupSpec_def rollupVars_def Let_def split: option.splits)

lemma rollupSpec_coverageOk:
  assumes "\<forall>r\<in>set (operationCoverageResult st). coverageOk r"
    and "\<And>ops. trafficOperation st k = Some ops \<Longrightarrow> length ops \<le> length value"
  shows "\<forall>r\<in>set (operationCoverageResult (rollupSpec tenv k value st)). coverageOk r"
  using assms
  by (auto simp add: rollupSpec_report coverageOk_def split: option.splits)

lemma rollup_coverageOk:
  assumes "\<forall>(k, value)\<in>set mapper. \<forall>ops. trafficOperation st k = Some ops \<longrightarrow> length ops \<le> length value"
    and "\<forall>r\<in>set (operationCoverageResult st). coverageOk r"
  shows "\<forall>r\<in>set (operationCoverageResult (rollup tenv mapper st)). coverageOk r"
  using assms unfolding rollup_def
proof (induction mapper arbitrary: st)
  case Nil
  then show ?case by simp
next
  case (Cons e mapper)
  obtain k v where e: "e = (k, v)" by (cases e)
  have 1: "\<forall>r\<in>set (operationCoverageResult (rollupSpec tenv k v st)). coverageOk r"
    using Cons.prems e by (intro rollupSpec_coverageOk) auto
  have 2: "\<forall>(k', v')\<in>set mapper. \<forall>ops. trafficOperation (rollupSpec tenv k v st) k' = Some ops \<longrightarrow> length ops \<le> length v'"
    using Cons.prems(1) by auto
  show ?case using Cons.IH [OF 2 1] e by simp
qed

lemma rollup_specs:
  "map spec (operationCoverageResult (rollup tenv mapper st)) =
     map spec (operationCoverageResult st) @
     map fst (filter (\<lambda>(k, value). value \<noteq> [] \<and> trafficOperation st k \<noteq> None) mapper)"
  unfolding rollup_def
proof (induction mapper arbitrary: st)
  case Nil
  then show ?case by simp
next
  case (Cons e mapper)
  obtain k v where e: "e = (k, v)" by (cases e)
  show ?case using Cons.IH [of "rollupSpec tenv k v st"] e
    by (auto simp add: rollupSpec_report split: option.splits)
qed

text \<open>
  C8. With the keys of \<open>operationSpecMapper\<close> distinct (it is a \<open>Map\<close>), every entry of the
  coverage report has \<open>totalOperations > 0\<close>, \<open>coveredOperations \<le> totalOperations\<close> and
  \<open>coverageRate = coveredOperations / totalOperations\<close>; the specifications in the report are,
  in the order of the map, exactly those that declare an operation and were matched by a
  sample, so a specification with no declared operation or with no matching sample has no
  entry.
\<close>

theorem coverage_report_invariant:
  assumes "distinct (map fst mapper)"
  shows "(\<forall>r\<in>set (operationCoverageResult (validate tenv mapper samples initialState)). coverageOk r) \<and>
         map spec (operationCoverageResult (validate tenv mapper samples initialState)) =
           map fst (filter (\<lambda>(k, value). value \<noteq> [] \<and>
                       trafficOperation (validate tenv mapper samples initialState) k \<noteq> None) mapper)"
proof
  let ?st = "tryTrafficFiles tenv mapper samples initialState"
  have inv: "specInv mapper ?st" by (simp add: specInv_tryTrafficFiles specInv_initial)
  have b: "\<forall>(k, value)\<in>set mapper. \<forall>ops. trafficOperation ?st k = Some ops \<longrightarrow> length ops \<le> length value"
  proof (clarify)
    fix k v ops
    assume m: "(k, v) \<in> set mapper" and t: "trafficOperation ?st k = Some ops"
    have "distinct ops \<and> set ops \<subseteq> set (mapperGet mapper k)" using inv t by (simp add: specInv_def)
    then show "length ops \<le> length v"
      using mapperGet_entry [OF assms m] by (simp add: length_le_declared)
  qed
  have n: "operationCoverageResult ?st = []"
  proof -
    have "operationCoverageResult (fst (forTrafficFiles tenv mapper samples initialState)) = []"
      by (rule forTrafficFiles_state [where P = "\<lambda>s. operationCoverageResult s = []" and R = "\<lambda>_. True"])
         (simp_all add: initialState_def)
    then show ?thesis by simp
  qed
  then have e: "\<forall>r\<in>set (operationCoverageResult ?st). coverageOk r" by simp
  show "\<forall>r\<in>set (operationCoverageResult (validate tenv mapper samples initialState)). coverageOk r"
    unfolding validate_def by (rule rollup_coverageOk [OF b e])
  show "map spec (operationCoverageResult (validate tenv mapper samples initialState)) =
           map fst (filter (\<lambda>(k, value). value \<noteq> [] \<and>
                       trafficOperation (validate tenv mapper samples initialState) k \<noteq> None) mapper)"
    using n by (simp add: validate_def rollup_specs)
qed

theorem coverage_report_invariant_witness:
  "distinct (map fst mapper0) \<and>
   list_all coverageOk (reportOf corpus1) \<and>
   map spec (reportOf corpus1) = [''w-2020.json''] \<and>
   map (\<lambda>r. (coveredOperations r, totalOperations r, coverageRate r)) (reportOf corpus1) =
     [(6, 10, 3 / 5)]"
proof -
  have d: "distinct (map fst mapper0)" by (simp add: mapper0_def)
  have s: "list_all coverageOk (reportOf corpus1)"
    using coverage_report_invariant [OF d, of tenv0 corpus1] by (simp add: list_all_iff reportOf_def)
  have m: "map spec (reportOf corpus1) = [''w-2020.json'']" by code_simp
  have v: "map (\<lambda>r. (coveredOperations r, totalOperations r, coverageRate r)) (reportOf corpus1) =
     [(6, 10, 3 / 5)]" by code_simp
  show ?thesis using d s m v by simp
qed

subsection \<open>The bubble sort of the batches\<close>




lemma bubbleStep_length [simp]: "length (bubbleStep cmp j xs) = length xs"
  by (simp add: bubbleStep_def)







subsection \<open>The grouping of the uncovered operations\<close>
















subsection \<open>The order of the lists of the report\<close>













end
